theory Spec2Isabelle
  imports Main "HOL-Library.Sublist" "HOL-Library.Char_ord" "HOL-Library.List_Lexorder"
begin

section \<open>Log entries and the domain pattern matcher\<close>

text \<open>
  A \<open>ProcessedLogEntry\<close> of the source carries the columns of the CSV row plus the parsed
  timestamp, the category, the blocked flag and the minute key. The classifiers read the
  domain and the parsed timestamp only, so the record keeps these two fields;
  \<open>parsedTimestamp\<close> is the value of \<open>Date.getTime()\<close>, a whole number of milliseconds.
\<close>

record ProcessedLogEntry =
  domain :: string
  parsedTimestamp :: int

text \<open>
  \<open>String.prototype.includes\<close>: the pattern occurs at some position of the string, compared
  character by character (no case folding); the empty pattern occurs in every string.
\<close>

fun string_includes :: "string \<Rightarrow> string \<Rightarrow> bool" where
  "string_includes [] p = (p = [])"
| "string_includes (c # cs) p = (prefix p (c # cs) \<or> string_includes cs p)"

text \<open>\<open>hasDomainPattern\<close>: \<open>entries.some(entry => patterns.some(pattern => entry.domain.includes(pattern)))\<close>.\<close>

definition hasDomainPattern :: "ProcessedLogEntry list \<Rightarrow> string list \<Rightarrow> bool" where
  "hasDomainPattern entries patterns =
     list_ex (\<lambda>entry. list_ex (\<lambda>pattern. string_includes (domain entry) pattern) patterns) entries"

text \<open>\<open>countDomainPattern\<close>: the number of entries whose domain includes some pattern.\<close>

definition countDomainPattern :: "ProcessedLogEntry list \<Rightarrow> string list \<Rightarrow> nat" where
  "countDomainPattern entries patterns =
     length (filter (\<lambda>entry. list_ex (\<lambda>pattern. string_includes (domain entry) pattern) patterns) entries)"

text \<open>
  \<open>findEntriesInWindow\<close>: the source computes \<open>timeDiff = (entry - target) / 1000\<close> and keeps
  the entry when \<open>-beforeSeconds \<le> timeDiff \<le> afterSeconds\<close>. Timestamps are whole
  milliseconds, so the comparison is written on the difference in milliseconds.
\<close>

definition findEntriesInWindow ::
  "ProcessedLogEntry list \<Rightarrow> int \<Rightarrow> int \<Rightarrow> int \<Rightarrow> ProcessedLogEntry list" where
  "findEntriesInWindow entries targetTime beforeSeconds afterSeconds =
     filter (\<lambda>entry. parsedTimestamp entry - targetTime \<ge> - (beforeSeconds * 1000)
                   \<and> parsedTimestamp entry - targetTime \<le> afterSeconds * 1000) entries"

text \<open>\<open>detectAPNs\<close>: the entries of the Apple push service.\<close>

definition isAPNs :: "ProcessedLogEntry \<Rightarrow> bool" where
  "isAPNs entry = (string_includes (domain entry) ''courier''
                 \<and> string_includes (domain entry) ''push.apple.com'')"

definition detectAPNs :: "ProcessedLogEntry list \<Rightarrow> ProcessedLogEntry list" where
  "detectAPNs entries = filter isAPNs entries"

text \<open>
  The reading of the specification for the matcher: the comparison is made on the
  case-normalised domain and pattern. ASCII letters are folded to lower case.
\<close>

definition lower_char :: "char \<Rightarrow> char" where
  "lower_char c = (if CHR ''A'' \<le> c \<and> c \<le> CHR ''Z'' then char_of (of_char c + (32::nat)) else c)"

definition hasPattern_case_normalized :: "ProcessedLogEntry list \<Rightarrow> string list \<Rightarrow> bool" where
  "hasPattern_case_normalized entries patterns =
     list_ex (\<lambda>entry. list_ex (\<lambda>pattern.
        string_includes (map lower_char (domain entry)) (map lower_char pattern)) patterns) entries"

definition mkEntry :: "string \<Rightarrow> int \<Rightarrow> ProcessedLogEntry" where
  "mkEntry d t = \<lparr>domain = d, parsedTimestamp = t\<rparr>"

section \<open>Pattern tables\<close>

text \<open>The tables \<open>WHATSAPP_ACTIVITY_INDICATORS\<close> and \<open>FACEBOOK_ACTIVITY_INDICATORS\<close>.\<close>

definition WHATSAPP_signalling :: "string list" where
  "WHATSAPP_signalling = [''g.whatsapp.net'', ''graph.whatsapp.com'', ''dit.whatsapp.net'']"

definition WHATSAPP_mediaUpload :: "string list" where
  "WHATSAPP_mediaUpload = [''mmg.whatsapp.net'']"

definition WHATSAPP_mediaDownload :: "string list" where
  "WHATSAPP_mediaDownload = [''media-'', ''.cdn.whatsapp.net'', ''mmx-ds.cdn.whatsapp.net'']"

definition WHATSAPP_calls :: "string list" where
  "WHATSAPP_calls = [''dit.whatsapp.net'', ''dyn.whatsapp.net'', ''relay.whatsapp.net'']"

definition WHATSAPP_core :: "string list" where
  "WHATSAPP_core = [''whatsapp.net'', ''whatsapp.com'']"

definition FACEBOOK_calls :: "string list" where
  "FACEBOOK_calls = [''external.xx.fbcdn.net'']"

definition FACEBOOK_textSend :: "string list" where
  "FACEBOOK_textSend = [''pm.facebook.com'', ''web.facebook.com'']"

definition FACEBOOK_messaging :: "string list" where
  "FACEBOOK_messaging = [''edge-mqtt.facebook.com'', ''gateway.facebook.com'', ''chat-e2ee.facebook.com'']"

definition FACEBOOK_mediaUpload :: "string list" where
  "FACEBOOK_mediaUpload = [''rupload.facebook.com'']"

definition FACEBOOK_mediaDownload :: "string list" where
  "FACEBOOK_mediaDownload = [''scontent.'', ''.fbcdn.net'', ''.fbsbx.com'']"

definition FACEBOOK_api :: "string list" where
  "FACEBOOK_api = [''star.c10r.facebook.com'', ''star.fallback.c10r.facebook.com'',
                   ''graph.facebook.com'', ''graph.instagram.com'']"

definition FACEBOOK_core :: "string list" where
  "FACEBOOK_core = [''facebook.com'', ''messenger.com'', ''instagram.com'']"

definition FACEBOOK_background :: "string list" where
  "FACEBOOK_background = [''www.facebook.com'', ''static.xx.fbcdn.net'', ''connect.facebook.net'']"

definition FACEBOOK_reelsVideo :: "string list" where
  "FACEBOOK_reelsVideo = [''static-'', ''.xx.fbcdn.net'', ''external-'', ''.xx.fbcdn.net'',
                          ''-netseer-ipaddr-assoc.'', ''oculuscdn.com'', ''securecdn.oculus.com'',
                          ''cdninstagram.com'']"

section \<open>The WhatsApp activity classifier\<close>

text \<open>
  The result of \<open>detectWhatsAppActivity\<close>; the same six values are the mutable locals of the
  function, so the record also serves as its state. (\<open>isMediaTransfer\<close> and
  \<open>activityScore\<close> exist in both classifiers' results and carry a prefix here.)
\<close>

record WhatsAppActivity =
  isTextMessage :: bool
  wa_isMediaTransfer :: bool
  isVoiceCall :: bool
  isVideoCall :: bool
  wa_activityScore :: int
  callDirection :: string

definition wa_initial :: WhatsAppActivity where
  "wa_initial = \<lparr>isTextMessage = False, wa_isMediaTransfer = False, isVoiceCall = False,
                  isVideoCall = False, wa_activityScore = 0, callDirection = []\<rparr>"

definition isSignalling :: "ProcessedLogEntry \<Rightarrow> bool" where
  "isSignalling entry = list_ex (\<lambda>pattern. string_includes (domain entry) pattern) WHATSAPP_signalling"

definition hasNetSeerCDN :: "ProcessedLogEntry list \<Rightarrow> bool" where
  "hasNetSeerCDN sortedEntries =
     list_ex (\<lambda>entry. string_includes (domain entry) ''-netseer-ipaddr-assoc.'') sortedEntries"

text \<open>
  Section 1 of the source, the loop over the push entries: the first push entry that has
  signalling within [-10 s, +5 s] and no Facebook upload or MQTT entry within
  [-10 s, +15 s] sets the call flags and leaves the loop.
\<close>

fun wa_incomingCall ::
  "ProcessedLogEntry list \<Rightarrow> ProcessedLogEntry list \<Rightarrow> WhatsAppActivity \<Rightarrow> WhatsAppActivity" where
  "wa_incomingCall sortedEntries [] st = st"
| "wa_incomingCall sortedEntries (apnsEntry # rest) st =
     (let signallingInWindow =
            filter isSignalling (findEntriesInWindow sortedEntries (parsedTimestamp apnsEntry) 10 5)
      in if length signallingInWindow > 0 then
           (let facebookInterference =
                  filter (\<lambda>entry. string_includes (domain entry) ''rupload.facebook.com''
                                \<or> string_includes (domain entry) ''edge-mqtt.facebook.com'')
                    (findEntriesInWindow sortedEntries (parsedTimestamp apnsEntry) 10 15)
            in if length facebookInterference = 0
               then st\<lparr>isVoiceCall := True, callDirection := ''incoming'',
                       wa_activityScore := wa_activityScore st + 8\<rparr>
               else wa_incomingCall sortedEntries rest st)
         else wa_incomingCall sortedEntries rest st)"

text \<open>
  Section 2, the loop over the signalling entries: the first one followed within 120 s by a
  strictly later media CDN entry makes the window a media transfer (a voice note).
\<close>

fun wa_voiceNoteLoop ::
  "ProcessedLogEntry list \<Rightarrow> ProcessedLogEntry list \<Rightarrow> WhatsAppActivity \<Rightarrow> WhatsAppActivity" where
  "wa_voiceNoteLoop sortedEntries [] st = st"
| "wa_voiceNoteLoop sortedEntries (signallingEntry # rest) st =
     (let laterMediaCDN =
            filter (\<lambda>entry. string_includes (domain entry) ''media-''
                          \<and> string_includes (domain entry) ''cdn.whatsapp.net''
                          \<and> parsedTimestamp entry > parsedTimestamp signallingEntry)
              (findEntriesInWindow sortedEntries (parsedTimestamp signallingEntry) 0 120);
          precedingAPNs =
            filter isAPNs (findEntriesInWindow sortedEntries (parsedTimestamp signallingEntry) 15 0)
      in if length laterMediaCDN > 0
         then st\<lparr>wa_isMediaTransfer := True,
                 callDirection := (if length precedingAPNs > 0 then ''incoming'' else ''outgoing''),
                 wa_activityScore := wa_activityScore st + (if length precedingAPNs > 0 then 8 else 6)\<rparr>
         else wa_voiceNoteLoop sortedEntries rest st)"

definition wa_voiceNote :: "ProcessedLogEntry list \<Rightarrow> WhatsAppActivity \<Rightarrow> WhatsAppActivity" where
  "wa_voiceNote sortedEntries st =
     (if \<not> isVoiceCall st \<and> hasDomainPattern sortedEntries WHATSAPP_signalling
      then wa_voiceNoteLoop sortedEntries (filter isSignalling sortedEntries) st
      else st)"

text \<open>Section 3: the ranked text-message signatures.\<close>

definition wa_textMessage :: "ProcessedLogEntry list \<Rightarrow> WhatsAppActivity \<Rightarrow> WhatsAppActivity" where
  "wa_textMessage sortedEntries st =
     (if \<not> isVoiceCall st \<and> \<not> wa_isMediaTransfer st then
        (let hasAPNsActivity = length (detectAPNs sortedEntries) > 0;
             hasDitActivity = hasDomainPattern sortedEntries [''dit.whatsapp.net''];
             hasGraphActivity = hasDomainPattern sortedEntries [''graph.whatsapp.com''];
             hasSignalling = hasDomainPattern sortedEntries WHATSAPP_signalling;
             hasMediaUpload = hasDomainPattern sortedEntries WHATSAPP_mediaUpload
         in if hasAPNsActivity \<and> hasSignalling
            then st\<lparr>isTextMessage := True, wa_activityScore := wa_activityScore st + 7\<rparr>
            else if hasDitActivity \<and> hasGraphActivity \<and> hasSignalling
            then st\<lparr>isTextMessage := True, wa_activityScore := wa_activityScore st + 5\<rparr>
            else if hasGraphActivity \<and> hasSignalling
            then st\<lparr>isTextMessage := True, wa_activityScore := wa_activityScore st + 4\<rparr>
            else if hasMediaUpload
            then st\<lparr>isTextMessage := True, wa_activityScore := wa_activityScore st + 4\<rparr>
            else st)
      else st)"

text \<open>Section 4: the upload gateway, with the bonus for the complete sequence.\<close>

definition wa_mediaSent :: "ProcessedLogEntry list \<Rightarrow> WhatsAppActivity \<Rightarrow> WhatsAppActivity" where
  "wa_mediaSent sortedEntries st =
     (if hasDomainPattern sortedEntries WHATSAPP_mediaUpload then
        (let st1 = st\<lparr>wa_isMediaTransfer := True, wa_activityScore := wa_activityScore st + 6\<rparr>;
             hasStaticActivity = hasDomainPattern sortedEntries [''static.whatsapp.net''];
             hasDitActivity = hasDomainPattern sortedEntries [''dit.whatsapp.net'']
         in if hasDomainPattern sortedEntries WHATSAPP_mediaDownload \<and> hasStaticActivity \<and> hasDitActivity
            then st1\<lparr>wa_activityScore := wa_activityScore st1 + 3\<rparr>
            else st1)
      else st)"

text \<open>
  Section 5, the loop over the push entries: signalling within 300 s after the push entry,
  a media CDN entry in the same range and fewer than two Apple system entries within
  30 s make the window a received voice note.
\<close>

fun wa_voiceNoteReceivedLoop ::
  "ProcessedLogEntry list \<Rightarrow> ProcessedLogEntry list \<Rightarrow> WhatsAppActivity \<Rightarrow> WhatsAppActivity" where
  "wa_voiceNoteReceivedLoop sortedEntries [] st = st"
| "wa_voiceNoteReceivedLoop sortedEntries (apnsEntry # rest) st =
     (let whatsappSignalling =
            filter isSignalling (findEntriesInWindow sortedEntries (parsedTimestamp apnsEntry) 0 300)
      in if length whatsappSignalling > 0 then
           (let voiceNoteMedia =
                  filter (\<lambda>entry. string_includes (domain entry) ''media-''
                                \<and> string_includes (domain entry) ''cdn.whatsapp.net'')
                    (findEntriesInWindow sortedEntries (parsedTimestamp apnsEntry) 0 300);
                appleSystemActivity =
                  filter (\<lambda>entry. string_includes (domain entry) ''apple.com''
                                \<or> string_includes (domain entry) ''icloud.com'')
                    (findEntriesInWindow sortedEntries (parsedTimestamp apnsEntry) 30 30)
            in if length voiceNoteMedia > 0 \<and> length appleSystemActivity < 2
               then st\<lparr>wa_isMediaTransfer := True, wa_activityScore := wa_activityScore st + 6\<rparr>
               else wa_voiceNoteReceivedLoop sortedEntries rest st)
         else wa_voiceNoteReceivedLoop sortedEntries rest st)"

definition wa_voiceNoteReceived :: "ProcessedLogEntry list \<Rightarrow> WhatsAppActivity \<Rightarrow> WhatsAppActivity" where
  "wa_voiceNoteReceived sortedEntries st =
     (if \<not> isVoiceCall st \<and> \<not> wa_isMediaTransfer st
      then wa_voiceNoteReceivedLoop sortedEntries (detectAPNs sortedEntries) st
      else st)"

text \<open>Section 6: a media CDN entry with no upload and no call.\<close>

definition wa_mediaReceived :: "ProcessedLogEntry list \<Rightarrow> WhatsAppActivity \<Rightarrow> WhatsAppActivity" where
  "wa_mediaReceived sortedEntries st =
     (if hasDomainPattern sortedEntries WHATSAPP_mediaDownload
         \<and> \<not> hasDomainPattern sortedEntries WHATSAPP_mediaUpload \<and> \<not> isVoiceCall st
      then st\<lparr>wa_isMediaTransfer := True, wa_activityScore := wa_activityScore st + 4\<rparr>
      else st)"

text \<open>Section 7: the persistent-connection boost.\<close>

definition wa_persistent :: "WhatsAppActivity \<Rightarrow> WhatsAppActivity" where
  "wa_persistent st =
     (if wa_isMediaTransfer st \<and> \<not> isTextMessage st \<and> wa_activityScore st \<ge> 4
      then st\<lparr>isTextMessage := True, wa_activityScore := wa_activityScore st + 2\<rparr>
      else st)"

text \<open>The floor: any WhatsApp presence scores at least 1.\<close>

definition wa_minimal :: "ProcessedLogEntry list \<Rightarrow> WhatsAppActivity \<Rightarrow> WhatsAppActivity" where
  "wa_minimal sortedEntries st =
     (if wa_activityScore st = 0
         \<and> (hasDomainPattern sortedEntries WHATSAPP_core \<or> hasDomainPattern sortedEntries WHATSAPP_signalling)
      then st\<lparr>wa_activityScore := 1\<rparr>
      else st)"

text \<open>
  \<open>detectWhatsAppActivity\<close>: the entries are sorted by timestamp (the sort of the source is
  stable, as \<open>sort_key\<close> is), the two early returns come first, then the numbered
  sections run in the order of the source.
\<close>

definition detectWhatsAppActivity :: "ProcessedLogEntry list \<Rightarrow> WhatsAppActivity" where
  "detectWhatsAppActivity windowEntries =
     (let sortedEntries = sort_key parsedTimestamp windowEntries;
          hasSignalling = hasDomainPattern sortedEntries WHATSAPP_signalling;
          hasMediaUpload = hasDomainPattern sortedEntries WHATSAPP_mediaUpload;
          hasCore = hasDomainPattern sortedEntries WHATSAPP_core
      in if \<not> hasCore \<and> \<not> hasSignalling then wa_initial
         else if hasNetSeerCDN sortedEntries
                 \<and> \<not> (length (detectAPNs sortedEntries) > 0 \<or> hasMediaUpload)
         then wa_initial\<lparr>wa_activityScore := 0\<rparr>
         else wa_minimal sortedEntries
               (wa_persistent
                 (wa_mediaReceived sortedEntries
                   (wa_voiceNoteReceived sortedEntries
                     (wa_mediaSent sortedEntries
                       (wa_textMessage sortedEntries
                         (wa_voiceNote sortedEntries
                           (wa_incomingCall sortedEntries (detectAPNs sortedEntries) wa_initial))))))))"

section \<open>The Facebook activity classifier\<close>

text \<open>The result of \<open>detectFacebookActivity\<close>, which is also the state of its mutable locals.\<close>

record FacebookActivity =
  isMessaging :: bool
  fb_isMediaTransfer :: bool
  isBackgroundRefresh :: bool
  isInstagramActivity :: bool
  isReelsScrolling :: bool
  fb_activityScore :: int
  isCall :: bool

definition fb_initial :: FacebookActivity where
  "fb_initial = \<lparr>isMessaging = False, fb_isMediaTransfer = False, isBackgroundRefresh = False,
                  isInstagramActivity = False, isReelsScrolling = False, fb_activityScore = 0,
                  isCall = False\<rparr>"

text \<open>The constants computed once at the head of the function.\<close>

definition fb_hasCalls :: "ProcessedLogEntry list \<Rightarrow> bool" where
  "fb_hasCalls sortedEntries = hasDomainPattern sortedEntries FACEBOOK_calls"

definition fb_hasTextSend :: "ProcessedLogEntry list \<Rightarrow> bool" where
  "fb_hasTextSend sortedEntries = hasDomainPattern sortedEntries FACEBOOK_textSend"

definition fb_hasMessagingMQTT :: "ProcessedLogEntry list \<Rightarrow> bool" where
  "fb_hasMessagingMQTT sortedEntries = hasDomainPattern sortedEntries FACEBOOK_messaging"

definition fb_hasMediaUpload :: "ProcessedLogEntry list \<Rightarrow> bool" where
  "fb_hasMediaUpload sortedEntries = hasDomainPattern sortedEntries FACEBOOK_mediaUpload"

definition fb_hasMediaDownload :: "ProcessedLogEntry list \<Rightarrow> bool" where
  "fb_hasMediaDownload sortedEntries = hasDomainPattern sortedEntries FACEBOOK_mediaDownload"

definition fb_hasCore :: "ProcessedLogEntry list \<Rightarrow> bool" where
  "fb_hasCore sortedEntries = hasDomainPattern sortedEntries FACEBOOK_core"

definition fb_hasBackground :: "ProcessedLogEntry list \<Rightarrow> bool" where
  "fb_hasBackground sortedEntries = hasDomainPattern sortedEntries FACEBOOK_background"

definition fb_hasReelsVideo :: "ProcessedLogEntry list \<Rightarrow> bool" where
  "fb_hasReelsVideo sortedEntries = hasDomainPattern sortedEntries FACEBOOK_reelsVideo"

definition hasVideoStaticAssets :: "ProcessedLogEntry list \<Rightarrow> bool" where
  "hasVideoStaticAssets sortedEntries =
     list_ex (\<lambda>entry. string_includes (domain entry) ''static-''
                    \<and> string_includes (domain entry) ''.xx.fbcdn.net'') sortedEntries"

text \<open>Section 1: the STUN marker with a messaging or core domain and no WhatsApp media.\<close>

definition fb_callDetection :: "ProcessedLogEntry list \<Rightarrow> FacebookActivity \<Rightarrow> FacebookActivity" where
  "fb_callDetection sortedEntries st =
     (if fb_hasCalls sortedEntries \<and> (fb_hasMessagingMQTT sortedEntries \<or> fb_hasCore sortedEntries) then
        (let whatsappInterference =
               filter (\<lambda>entry. string_includes (domain entry) ''mmg.whatsapp.net''
                             \<or> (string_includes (domain entry) ''media-''
                                \<and> string_includes (domain entry) ''cdn.whatsapp.net'')) sortedEntries
         in if length whatsappInterference = 0
            then st\<lparr>isCall := True, fb_activityScore := fb_activityScore st + 7\<rparr>
            else st)
      else st)"

text \<open>Section 2: the quantities of the app-launch test.\<close>

definition totalFacebookDomains :: "ProcessedLogEntry list \<Rightarrow> nat" where
  "totalFacebookDomains sortedEntries =
     length (filter (\<lambda>entry. string_includes (domain entry) ''facebook'') sortedEntries)"

definition uniqueFacebookDomains :: "ProcessedLogEntry list \<Rightarrow> nat" where
  "uniqueFacebookDomains sortedEntries =
     length (remdups (map domain
       (filter (\<lambda>entry. string_includes (domain entry) ''facebook'') sortedEntries)))"

definition hasE2EE :: "ProcessedLogEntry list \<Rightarrow> bool" where
  "hasE2EE sortedEntries = hasDomainPattern sortedEntries [''chat-e2ee.facebook.com'']"

definition hasTypicalAppLaunchDomains :: "ProcessedLogEntry list \<Rightarrow> bool" where
  "hasTypicalAppLaunchDomains sortedEntries =
     hasDomainPattern sortedEntries
       [''www.facebook.com'', ''web.facebook.com'', ''m.facebook.com'',
        ''gateway.facebook.com'', ''graph.facebook.com'', ''api.facebook.com'',
        ''star.fallback.c10r.facebook.com'', ''lookaside.facebook.com'']"

definition hasStrongTextSendEvidence :: "ProcessedLogEntry list \<Rightarrow> bool" where
  "hasStrongTextSendEvidence sortedEntries = hasDomainPattern sortedEntries [''pm.facebook.com'']"

definition hasWeakTextSendEvidence :: "ProcessedLogEntry list \<Rightarrow> bool" where
  "hasWeakTextSendEvidence sortedEntries = hasDomainPattern sortedEntries [''web.facebook.com'']"

text \<open>
  \<open>analyzeTemporalPattern\<close> returns the pair (\<open>isBurstPattern\<close>, \<open>isIsolatedPattern\<close>): the
  number of other Facebook entries within 5 s of the first upload entry is at least 6,
  respectively at most 2.
\<close>

definition analyzeTemporalPattern :: "ProcessedLogEntry list \<Rightarrow> bool \<times> bool" where
  "analyzeTemporalPattern sortedEntries =
     (if \<not> fb_hasMediaUpload sortedEntries then (False, False)
      else case filter (\<lambda>entry. string_includes (domain entry) ''rupload.facebook.com'') sortedEntries of
             [] \<Rightarrow> (False, False)
           | ruploadEntry # _ \<Rightarrow>
               (let ruploadTime = parsedTimestamp ruploadEntry;
                    nearbyFacebookEntries =
                      filter (\<lambda>entry. string_includes (domain entry) ''facebook''
                                    \<and> \<not> string_includes (domain entry) ''rupload.facebook.com''
                                    \<and> \<bar>parsedTimestamp entry - ruploadTime\<bar> \<le> 5000) sortedEntries
                in (length nearbyFacebookEntries \<ge> 6, length nearbyFacebookEntries \<le> 2)))"

definition hasSpecificMessagingEvidence :: "ProcessedLogEntry list \<Rightarrow> bool" where
  "hasSpecificMessagingEvidence sortedEntries =
     (let isBurstPattern = fst (analyzeTemporalPattern sortedEntries);
          isIsolatedPattern = snd (analyzeTemporalPattern sortedEntries)
      in (fb_hasMediaUpload sortedEntries \<and> \<not> isBurstPattern
            \<and> (hasStrongTextSendEvidence sortedEntries \<or> hasWeakTextSendEvidence sortedEntries
               \<or> fb_hasMessagingMQTT sortedEntries \<or> hasE2EE sortedEntries))
       \<or> (fb_hasMediaUpload sortedEntries \<and> isIsolatedPattern \<and> fb_hasMessagingMQTT sortedEntries)
       \<or> (hasStrongTextSendEvidence sortedEntries \<and> fb_hasMessagingMQTT sortedEntries
            \<and> \<not> fb_hasMediaUpload sortedEntries \<and> \<not> fb_hasMediaDownload sortedEntries)
       \<or> (length (detectAPNs sortedEntries) > 0
            \<and> (fb_hasMediaUpload sortedEntries \<or> fb_hasMediaDownload sortedEntries))
       \<or> (hasWeakTextSendEvidence sortedEntries \<and> uniqueFacebookDomains sortedEntries \<le> 5
            \<and> totalFacebookDomains sortedEntries \<le> 8))"

definition isLikelyAppLaunch :: "ProcessedLogEntry list \<Rightarrow> bool" where
  "isLikelyAppLaunch sortedEntries =
     ((uniqueFacebookDomains sortedEntries \<ge> 8 \<and> totalFacebookDomains sortedEntries \<ge> 10
         \<and> hasTypicalAppLaunchDomains sortedEntries
         \<and> \<not> fb_hasMediaUpload sortedEntries \<and> \<not> fb_hasMediaDownload sortedEntries)
      \<or> (hasDomainPattern sortedEntries [''gateway.facebook.com'']
         \<and> hasDomainPattern sortedEntries [''graph.facebook.com'']
         \<and> hasDomainPattern sortedEntries [''edge-mqtt.facebook.com'']
         \<and> hasDomainPattern sortedEntries [''www.facebook.com'']
         \<and> \<not> fb_hasMediaUpload sortedEntries \<and> \<not> fb_hasMediaDownload sortedEntries
         \<and> \<not> hasSpecificMessagingEvidence sortedEntries))"

text \<open>Section 3: a text-send domain with a realtime-messaging domain and no media.\<close>

definition fb_textSent :: "ProcessedLogEntry list \<Rightarrow> FacebookActivity \<Rightarrow> FacebookActivity" where
  "fb_textSent sortedEntries st =
     (let hasStrictTextSendEvidence = hasDomainPattern sortedEntries [''pm.facebook.com'']
      in if \<not> isCall st
            \<and> (hasStrictTextSendEvidence
               \<or> (hasWeakTextSendEvidence sortedEntries \<and> uniqueFacebookDomains sortedEntries \<le> 4))
            \<and> fb_hasMessagingMQTT sortedEntries
            \<and> \<not> fb_hasMediaUpload sortedEntries \<and> \<not> fb_hasMediaDownload sortedEntries
            \<and> \<not> isLikelyAppLaunch sortedEntries \<and> \<not> hasNetSeerCDN sortedEntries
         then st\<lparr>isMessaging := True, fb_activityScore := fb_activityScore st + 6\<rparr>
         else st)"

text \<open>
  Section 4, second half: the loop over the push entries; the first one followed within
  300 s by a Facebook entry, with an upload or a download in the window, sets messaging.
\<close>

fun fb_apnsLoop ::
  "ProcessedLogEntry list \<Rightarrow> bool \<Rightarrow> bool \<Rightarrow> ProcessedLogEntry list \<Rightarrow> FacebookActivity \<Rightarrow> FacebookActivity" where
  "fb_apnsLoop sortedEntries hasUpload hasDownload [] st = st"
| "fb_apnsLoop sortedEntries hasUpload hasDownload (apnsEntry # rest) st =
     (let facebookActivity =
            filter (\<lambda>entry. string_includes (domain entry) ''facebook'')
              (findEntriesInWindow sortedEntries (parsedTimestamp apnsEntry) 0 300)
      in if length facebookActivity > 0 \<and> (hasUpload \<or> hasDownload)
         then (let st1 = st\<lparr>isMessaging := True\<rparr>;
                   st2 = (if hasUpload \<or> hasDownload then st1\<lparr>fb_isMediaTransfer := True\<rparr> else st1)
               in st2\<lparr>fb_activityScore := fb_activityScore st2 + 6\<rparr>)
         else fb_apnsLoop sortedEntries hasUpload hasDownload rest st)"

text \<open>Section 4: message and media exchange.\<close>

definition fb_mediaExchange :: "ProcessedLogEntry list \<Rightarrow> FacebookActivity \<Rightarrow> FacebookActivity" where
  "fb_mediaExchange sortedEntries st =
     (if (fb_hasMediaUpload sortedEntries \<or> fb_hasMediaDownload sortedEntries)
         \<and> \<not> hasNetSeerCDN sortedEntries then
        (let hasUpload = hasDomainPattern sortedEntries [''rupload.facebook.com''];
             hasDownload = hasDomainPattern sortedEntries [''scontent-'', ''fbcdn.net''];
             hasE2EE = hasDomainPattern sortedEntries [''chat-e2ee.facebook.com''];
             hasMessagingContext = (fb_hasMessagingMQTT sortedEntries \<or> hasE2EE
                \<or> hasDomainPattern sortedEntries [''gateway.facebook.com'', ''graph.facebook.com'']);
             hasStrongMessagingEvidence =
               (hasStrongTextSendEvidence sortedEntries
                \<or> (hasE2EE \<and> hasMessagingContext)
                \<or> (hasUpload \<and> hasMessagingContext)
                \<or> length (detectAPNs sortedEntries) > 0
                \<or> (hasWeakTextSendEvidence sortedEntries \<and> uniqueFacebookDomains sortedEntries \<le> 5));
             st1 = (if hasMessagingContext
                       \<and> (hasStrongMessagingEvidence \<or> \<not> isLikelyAppLaunch sortedEntries) then
                      (if hasUpload \<and> hasDownload
                       then st\<lparr>isMessaging := True, fb_isMediaTransfer := True,
                               fb_activityScore := fb_activityScore st + 9\<rparr>
                       else if hasUpload \<and> (fb_hasTextSend sortedEntries \<or> hasE2EE \<or> hasMessagingContext)
                       then st\<lparr>isMessaging := True, fb_isMediaTransfer := True,
                               fb_activityScore := fb_activityScore st + 8\<rparr>
                       else if hasDownload \<and> hasE2EE \<and> fb_hasMessagingMQTT sortedEntries
                       then st\<lparr>isMessaging := True, fb_isMediaTransfer := True,
                               fb_activityScore := fb_activityScore st + 7\<rparr>
                       else st)
                    else st);
             apnsEntries = detectAPNs sortedEntries
         in if length apnsEntries > 0 \<and> \<not> isMessaging st1
            then fb_apnsLoop sortedEntries hasUpload hasDownload apnsEntries st1
            else st1)
      else st)"

text \<open>Section 5: API-based messaging.\<close>

definition fb_apiMessaging :: "ProcessedLogEntry list \<Rightarrow> FacebookActivity \<Rightarrow> FacebookActivity" where
  "fb_apiMessaging sortedEntries st =
     (let hasAPI = hasDomainPattern sortedEntries FACEBOOK_api
      in if \<not> isCall st \<and> \<not> isMessaging st \<and> (fb_hasMessagingMQTT sortedEntries \<or> hasAPI)
            \<and> \<not> isLikelyAppLaunch sortedEntries \<and> \<not> hasNetSeerCDN sortedEntries then
           (let hasE2EE = hasDomainPattern sortedEntries [''chat-e2ee.facebook.com''];
                hasStarFallback = hasDomainPattern sortedEntries [''star.fallback.c10r.facebook.com''];
                hasAPNsEvidence = length (detectAPNs sortedEntries) > 0
            in if (hasE2EE \<and> hasStarFallback) \<or> (hasStarFallback \<and> hasAPNsEvidence)
                  \<or> (hasE2EE \<and> hasAPNsEvidence)
               then (let st1 = st\<lparr>isMessaging := True\<rparr>
                     in if hasE2EE \<and> hasStarFallback
                        then st1\<lparr>fb_activityScore := fb_activityScore st1 + 6\<rparr>
                        else if hasE2EE \<or> hasStarFallback
                        then st1\<lparr>fb_activityScore := fb_activityScore st1 + 5\<rparr>
                        else st1)
               else st)
         else st)"

text \<open>Section 6: an isolated realtime-messaging entry with a push entry.\<close>

definition fb_isolatedNotification :: "ProcessedLogEntry list \<Rightarrow> FacebookActivity \<Rightarrow> FacebookActivity" where
  "fb_isolatedNotification sortedEntries st =
     (if \<not> isCall st \<and> \<not> isMessaging st \<and> fb_hasMessagingMQTT sortedEntries
         \<and> \<not> fb_hasTextSend sortedEntries \<and> \<not> fb_hasMediaUpload sortedEntries
         \<and> \<not> fb_hasMediaDownload sortedEntries
         \<and> \<not> isLikelyAppLaunch sortedEntries \<and> \<not> hasNetSeerCDN sortedEntries then
        (let mqttEntries =
               filter (\<lambda>entry. string_includes (domain entry) ''edge-mqtt.facebook.com'') sortedEntries;
             otherFacebookEntries =
               filter (\<lambda>entry. string_includes (domain entry) ''facebook''
                             \<and> \<not> string_includes (domain entry) ''edge-mqtt.facebook.com'') sortedEntries;
             hasAPNsEvidence = length (detectAPNs sortedEntries) > 0
         in if length mqttEntries \<ge> 1 \<and> length otherFacebookEntries \<le> 1 \<and> hasAPNsEvidence
            then st\<lparr>isMessaging := True, fb_activityScore := fb_activityScore st + 4\<rparr>
            else st)
      else st)"

text \<open>Sections 7 and 8: media flags as annotations of an established messaging result.\<close>

definition fb_mediaSent :: "ProcessedLogEntry list \<Rightarrow> FacebookActivity \<Rightarrow> FacebookActivity" where
  "fb_mediaSent sortedEntries st =
     (if fb_hasMediaUpload sortedEntries \<and> \<not> isLikelyAppLaunch sortedEntries \<and> isMessaging st
      then st\<lparr>fb_isMediaTransfer := True, fb_activityScore := fb_activityScore st + 3\<rparr>
      else st)"

definition fb_mediaReceived :: "ProcessedLogEntry list \<Rightarrow> FacebookActivity \<Rightarrow> FacebookActivity" where
  "fb_mediaReceived sortedEntries st =
     (if fb_hasMediaDownload sortedEntries \<and> \<not> fb_hasMediaUpload sortedEntries
         \<and> \<not> isLikelyAppLaunch sortedEntries \<and> isMessaging st
      then st\<lparr>fb_isMediaTransfer := True, fb_activityScore := fb_activityScore st + 2\<rparr>
      else st)"

text \<open>Section 9: Instagram entries.\<close>

definition fb_instagram :: "ProcessedLogEntry list \<Rightarrow> FacebookActivity \<Rightarrow> FacebookActivity" where
  "fb_instagram sortedEntries st =
     (let instagramEntries = filter (\<lambda>entry. string_includes (domain entry) ''instagram'') sortedEntries
      in if length instagramEntries > 0
         then st\<lparr>isInstagramActivity := True, fb_activityScore := fb_activityScore st + 3\<rparr>
         else st)"

text \<open>The background-refresh fallback and the floor.\<close>

definition fb_backgroundRefresh :: "ProcessedLogEntry list \<Rightarrow> FacebookActivity \<Rightarrow> FacebookActivity" where
  "fb_backgroundRefresh sortedEntries st =
     (if \<not> isMessaging st \<and> \<not> fb_isMediaTransfer st \<and> \<not> isCall st \<and> \<not> isInstagramActivity st
         \<and> (fb_hasBackground sortedEntries
            \<or> (fb_hasCore sortedEntries \<and> countDomainPattern sortedEntries FACEBOOK_core \<le> 2))
      then st\<lparr>isBackgroundRefresh := True, fb_activityScore := 1\<rparr>
      else st)"

definition fb_minimal :: "ProcessedLogEntry list \<Rightarrow> FacebookActivity \<Rightarrow> FacebookActivity" where
  "fb_minimal sortedEntries st =
     (if fb_activityScore st = 0 \<and> fb_hasCore sortedEntries
      then st\<lparr>fb_activityScore := 1\<rparr>
      else st)"

text \<open>The part of the function after the reels section: sections 1 to 9 in source order.\<close>

definition fb_afterReels :: "ProcessedLogEntry list \<Rightarrow> FacebookActivity \<Rightarrow> FacebookActivity" where
  "fb_afterReels sortedEntries st =
     (let st1 = fb_callDetection sortedEntries st
      in if isLikelyAppLaunch sortedEntries
         then st1\<lparr>isBackgroundRefresh := True, fb_activityScore := 1\<rparr>
         else fb_minimal sortedEntries
               (fb_backgroundRefresh sortedEntries
                 (fb_instagram sortedEntries
                   (fb_mediaReceived sortedEntries
                     (fb_mediaSent sortedEntries
                       (fb_isolatedNotification sortedEntries
                         (fb_apiMessaging sortedEntries
                           (fb_mediaExchange sortedEntries
                             (fb_textSent sortedEntries st1)))))))))"

text \<open>
  \<open>detectFacebookActivity\<close>: the early return when no core, messaging, text-send or upload
  domain is present; then section 0, the reels test, which returns only for the NetSeer
  marker or for a video static asset; then the rest.
\<close>

definition detectFacebookActivity :: "ProcessedLogEntry list \<Rightarrow> FacebookActivity" where
  "detectFacebookActivity windowEntries =
     (let sortedEntries = sort_key parsedTimestamp windowEntries
      in if \<not> fb_hasCore sortedEntries \<and> \<not> fb_hasMessagingMQTT sortedEntries
            \<and> \<not> fb_hasTextSend sortedEntries \<and> \<not> fb_hasMediaUpload sortedEntries
         then fb_initial
         else if fb_hasReelsVideo sortedEntries then
           (if hasNetSeerCDN sortedEntries
            then \<lparr>isMessaging = False, fb_isMediaTransfer = False, isBackgroundRefresh = True,
                  isInstagramActivity = False, isReelsScrolling = True, fb_activityScore = 3,
                  isCall = False\<rparr>
            else if hasVideoStaticAssets sortedEntries
            then fb_initial\<lparr>isReelsScrolling := True, fb_activityScore := 3\<rparr>
            else fb_afterReels sortedEntries fb_initial)
         else fb_afterReels sortedEntries fb_initial)"

section \<open>The relationship concern scorer\<close>

text \<open>The table \<open>RELATIONSHIP_CONCERN_INDICATORS\<close>.\<close>

definition INDICATORS_datingApps :: "string list" where
  "INDICATORS_datingApps =
     [''tinder.com'', ''bumble.com'', ''hinge.co'', ''match.com'', ''eharmony.com'',
      ''okcupid.com'', ''pof.com'', ''zoosk.com'', ''badoo.com'', ''happn.com'',
      ''grindr.com'', ''scruff.com'', ''jackd.com'', ''hornet.com'',
      ''adultfriendfinder.com'', ''ashley-madison.com'', ''seeking.com'',
      ''raya.co'', ''coffeemeetsbagel.com'', ''theinner-circle.com'',
      ''elitesingles.com'', ''silversingles.com'', ''ourtime.com'',
      ''christianmingle.com'', ''jdate.com'', ''blackpeoplemeet.com'',
      ''loveandseek.com'', ''farmersonly.com'', ''militarycupid.com'']"

definition INDICATORS_alternativeMessaging :: "string list" where
  "INDICATORS_alternativeMessaging =
     [''telegram.org'', ''signal.org'', ''discord.com'', ''slack.com'',
      ''snapchat.com'', ''kik.com'', ''viber.com'', ''line.me'',
      ''wechat.com'', ''qq.com'', ''kakaotalk.com'', ''threema.ch'',
      ''wickr.com'', ''element.io'', ''session.im'', ''briar.app'',
      ''jami.net'', ''riot.im'', ''matrix.org'', ''keybase.io'',
      ''dust.com'', ''confide.com'', ''coverme.ws'', ''silent-phone.com'']"

definition INDICATORS_videoCalling :: "string list" where
  "INDICATORS_videoCalling =
     [''zoom.us'', ''skype.com'', ''teams.microsoft.com'', ''meet.google.com'',
      ''webex.com'', ''gotomeeting.com'', ''bluejeans.com'', ''jitsi.org'',
      ''whereby.com'', ''appear.in'', ''bigbluebutton.org'', ''jami.net'',
      ''facetime.apple.com'', ''duo.google.com'', ''allo.google.com'']"

definition INDICATORS_socialMessaging :: "string list" where
  "INDICATORS_socialMessaging =
     [''twitter.com'', ''x.com'', ''linkedin.com'', ''reddit.com'',
      ''pinterest.com'', ''tumblr.com'', ''twitch.tv'', ''onlyfans.com'',
      ''chaturbate.com'', ''cam4.com'', ''myfreecams.com'', ''streamate.com'',
      ''flirt4free.com'', ''camsoda.com'', ''bongacams.com'', ''stripchat.com'']"

definition INDICATORS_anonymousPlatforms :: "string list" where
  "INDICATORS_anonymousPlatforms =
     [''yolo.live'', ''sarahah.com'', ''tellonym.me'', ''curiouscat.me'',
      ''ask.fm'', ''lipsi.co'', ''sendit.gg'', ''ngl.link'',
      ''whisper.sh'', ''anonymous.com'', ''confession.co'', ''secrets.co'']"

definition INDICATORS_excludePatterns :: "string list" where
  "INDICATORS_excludePatterns =
     [''chat.google.com'', ''hangouts.google.com'', ''mail.google.com'',
      ''accounts.google.com'', ''apis.google.com'', ''fonts.google.com'', ''maps.google.com'']"

text \<open>The result of \<open>detectRelationshipConcerns\<close>; the five lists are its mutable locals.\<close>

record RelationshipConcerns =
  datingApps :: "string list"
  alternativeMessaging :: "string list"
  videoCalling :: "string list"
  socialMessaging :: "string list"
  anonymousPlatforms :: "string list"
  concernScore :: int

definition isExcluded :: "string \<Rightarrow> bool" where
  "isExcluded d = list_ex (\<lambda>pattern. string_includes d pattern) INDICATORS_excludePatterns"

text \<open>
  One inner \<open>forEach\<close>: every pattern of the category that the domain includes and that the
  list does not hold yet is pushed onto the list.
\<close>

definition pushMatches :: "string \<Rightarrow> string list \<Rightarrow> string list \<Rightarrow> string list" where
  "pushMatches d patterns found =
     foldl (\<lambda>acc pattern. if string_includes d pattern \<and> pattern \<notin> set acc
                           then acc @ [pattern] else acc) found patterns"

text \<open>The body of the outer \<open>forEach\<close>: an excluded domain is skipped.\<close>

definition checkDomain :: "RelationshipConcerns \<Rightarrow> string \<Rightarrow> RelationshipConcerns" where
  "checkDomain st d =
     (if isExcluded d then st
      else st\<lparr>datingApps := pushMatches d INDICATORS_datingApps (datingApps st),
              alternativeMessaging := pushMatches d INDICATORS_alternativeMessaging (alternativeMessaging st),
              videoCalling := pushMatches d INDICATORS_videoCalling (videoCalling st),
              socialMessaging := pushMatches d INDICATORS_socialMessaging (socialMessaging st),
              anonymousPlatforms := pushMatches d INDICATORS_anonymousPlatforms (anonymousPlatforms st)\<rparr>)"

definition rc_initial :: RelationshipConcerns where
  "rc_initial = \<lparr>datingApps = [], alternativeMessaging = [], videoCalling = [],
                  socialMessaging = [], anonymousPlatforms = [], concernScore = 0\<rparr>"

definition detectRelationshipConcerns :: "string list \<Rightarrow> RelationshipConcerns" where
  "detectRelationshipConcerns domains =
     (let st = foldl checkDomain rc_initial domains
      in st\<lparr>concernScore :=
               int (length (datingApps st)) * 10
               + int (length (anonymousPlatforms st)) * 8
               + int (length (alternativeMessaging st)) * 6
               + int (length (videoCalling st)) * 4
               + int (length (socialMessaging st)) * 2\<rparr>)"

text \<open>
  The distinct matches of a category: the patterns of the category that some domain of the
  list, not skipped by the exclusion list, includes. \<open>matchCount\<close> is the number of
  patterns of a category that one domain includes, and \<open>categoryCounts\<close> lists it for
  the five categories in the order dating, anonymous, alternative messaging, video
  calling, social messaging.
\<close>

definition matchedPatterns :: "string list \<Rightarrow> string list \<Rightarrow> string set" where
  "matchedPatterns patterns domains =
     {p \<in> set patterns. \<exists>d \<in> set domains. \<not> isExcluded d \<and> string_includes d p}"

definition matchCount :: "string list \<Rightarrow> string \<Rightarrow> nat" where
  "matchCount patterns d = length (filter (\<lambda>p. string_includes d p) patterns)"

definition categoryCounts :: "string \<Rightarrow> nat \<times> nat \<times> nat \<times> nat \<times> nat" where
  "categoryCounts d =
     (matchCount INDICATORS_datingApps d, matchCount INDICATORS_anonymousPlatforms d,
      matchCount INDICATORS_alternativeMessaging d, matchCount INDICATORS_videoCalling d,
      matchCount INDICATORS_socialMessaging d)"

section \<open>The masking detector\<close>

text \<open>
  The per-window record that \<open>detectReelsMasking\<close> reads: the minute key
  \<open>'yyyy-MM-dd HH:mm'\<close> and the two classifier results. The other statistics of the window
  are copied unchanged by the source and are not modelled.
\<close>

record TimeWindowStats =
  timeWindow :: string
  whatsappActivity :: WhatsAppActivity
  facebookActivity :: FacebookActivity

record MaskedStats = TimeWindowStats +
  isReelsMasking :: bool
  maskingEvidence :: string

text \<open>String helpers of the runtime: \<open>replace(' ', 'T')\<close> (first occurrence), \<open>split(' ')\<close>, \<open>join\<close>.\<close>

fun replaceSpaceT :: "string \<Rightarrow> string" where
  "replaceSpaceT [] = []"
| "replaceSpaceT (c # cs) = (if c = CHR '' '' then CHR ''T'' # cs else c # replaceSpaceT cs)"

fun splitOn :: "char \<Rightarrow> string \<Rightarrow> string list" where
  "splitOn sep [] = [[]]"
| "splitOn sep (c # cs) =
     (if c = sep then [] # splitOn sep cs
      else (case splitOn sep cs of [] \<Rightarrow> [[c]] | w # ws \<Rightarrow> (c # w) # ws))"

fun joinWith :: "string \<Rightarrow> string list \<Rightarrow> string" where
  "joinWith sep [] = []"
| "joinWith sep [x] = x"
| "joinWith sep (x # y # zs) = x @ sep @ joinWith sep (y # zs)"

text \<open>
  \<open>timeWindow.split(' ')[1]\<close>: the time of day of the key. A key without a space gives
  \<open>undefined\<close>, which \<open>join\<close> prints as the empty string.
\<close>

definition timeOfDay :: "string \<Rightarrow> string" where
  "timeOfDay tw = (case splitOn (CHR '' '') tw of _ # t # _ \<Rightarrow> t | _ \<Rightarrow> [])"

text \<open>
  \<open>new Date(s).getTime()\<close> for the strings \<open>'yyyy-MM-ddTHH:mm:ss'\<close> that the detector builds
  from a window key: milliseconds of the civil date and time, read in a zone with a fixed
  offset (the offset cancels in every difference the detector takes). Any other string is
  an invalid date, whose time is \<open>NaN\<close>: the value is \<open>None\<close>, and every comparison with
  it is false.
\<close>

definition digitVal :: "char \<Rightarrow> int option" where
  "digitVal c = (if CHR ''0'' \<le> c \<and> c \<le> CHR ''9'' then Some (int (of_char c) - 48) else None)"

fun digitsVal :: "string \<Rightarrow> int option" where
  "digitsVal [] = None"
| "digitsVal cs =
     foldl (\<lambda>acc c. case (acc, digitVal c) of (Some a, Some v) \<Rightarrow> Some (a * 10 + v) | _ \<Rightarrow> None)
       (Some 0) cs"

definition daysFromCivil :: "int \<Rightarrow> int \<Rightarrow> int \<Rightarrow> int" where
  "daysFromCivil y m d =
     (let y1 = (if m \<le> 2 then y - 1 else y);
          era = y1 div 400;
          yoe = y1 - era * 400;
          doy = (153 * (if m > 2 then m - 3 else m + 9) + 2) div 5 + d - 1;
          doe = yoe * 365 + yoe div 4 - yoe div 100 + doy
      in era * 146097 + doe - 719468)"

definition dateGetTime :: "string \<Rightarrow> int option" where
  "dateGetTime s =
     (if length s = 19 \<and> s ! 4 = CHR ''-'' \<and> s ! 7 = CHR ''-'' \<and> s ! 10 = CHR ''T''
         \<and> s ! 13 = CHR '':'' \<and> s ! 16 = CHR '':''
      then (case (digitsVal (take 4 s), digitsVal (take 2 (drop 5 s)), digitsVal (take 2 (drop 8 s)),
                  digitsVal (take 2 (drop 11 s)), digitsVal (take 2 (drop 14 s)),
                  digitsVal (take 2 (drop 17 s))) of
              (Some y, Some m, Some d, Some hh, Some mm, Some ss) \<Rightarrow>
                if 1 \<le> m \<and> m \<le> 12 \<and> 1 \<le> d \<and> d \<le> 31 \<and> hh \<le> 23 \<and> mm \<le> 59 \<and> ss \<le> 59
                then Some ((((daysFromCivil y m d * 24 + hh) * 60 + mm) * 60 + ss) * 1000)
                else None
            | _ \<Rightarrow> None)
      else None)"

text \<open>\<open>new Date(stat.timeWindow.replace(' ', 'T') + ':00').getTime()\<close>.\<close>

definition windowTime :: "string \<Rightarrow> int option" where
  "windowTime tw = dateGetTime (replaceSpaceT tw @ '':00'')"

text \<open>
  The test on \<open>timeDiffMins = (later - earlier) / (1000 * 60)\<close>: more than 1 and at most
  \<open>timeframeMins = 10\<close>, written on the difference in milliseconds.
\<close>

definition withinTimeframe :: "int option \<Rightarrow> int option \<Rightarrow> bool" where
  "withinTimeframe later earlier =
     (case (later, earlier) of
        (Some l, Some e) \<Rightarrow> l - e > 1 * (1000 * 60) \<and> l - e \<le> 10 * (1000 * 60)
      | _ \<Rightarrow> False)"

text \<open>Printing a number of minutes in a template string (the differences are whole minutes).\<close>

fun showNat :: "nat \<Rightarrow> string" where
  "showNat n = (if n < 10 then [char_of (48 + n)] else showNat (n div 10) @ [char_of (48 + n mod 10)])"

definition showMinutes :: "int option \<Rightarrow> int option \<Rightarrow> string" where
  "showMinutes later earlier =
     (case (later, earlier) of
        (Some l, Some e) \<Rightarrow> showNat (nat ((l - e) div (1000 * 60)))
      | _ \<Rightarrow> ''NaN'')"

definition hasStrongMessagingEvidence :: "TimeWindowStats \<Rightarrow> bool" where
  "hasStrongMessagingEvidence stat =
     ((isMessaging (facebookActivity stat) \<and> fb_isMediaTransfer (facebookActivity stat))
      \<or> (isTextMessage (whatsappActivity stat) \<and> callDirection (whatsappActivity stat) = ''incoming'')
      \<or> wa_isMediaTransfer (whatsappActivity stat)
      \<or> fb_activityScore (facebookActivity stat) > 6
      \<or> wa_activityScore (whatsappActivity stat) > 6)"

definition withMasking :: "TimeWindowStats \<Rightarrow> bool \<Rightarrow> string \<Rightarrow> MaskedStats" where
  "withMasking stat masking evidence =
     \<lparr>timeWindow = timeWindow stat, whatsappActivity = whatsappActivity stat,
      facebookActivity = facebookActivity stat,
      isReelsMasking = masking, maskingEvidence = evidence\<rparr>"

text \<open>
  The body of the \<open>map\<close> callback for the window \<open>stat\<close> at position \<open>index\<close> of the sorted
  sequence: the reels windows before it (\<open>recentReels\<close>) and after it
  (\<open>subsequentReels\<close>) whose distance is more than 1 and at most 10 minutes.
\<close>

definition maskWindow :: "TimeWindowStats list \<Rightarrow> nat \<Rightarrow> TimeWindowStats \<Rightarrow> MaskedStats" where
  "maskWindow sortedStats index stat =
     (if hasStrongMessagingEvidence stat then
        (let currentTime = windowTime (timeWindow stat);
             indexed = zip [0..<length sortedStats] sortedStats;
             recentReels = map snd (filter (\<lambda>(otherIndex, otherStat).
                 \<not> (otherIndex \<ge> index \<or> \<not> isReelsScrolling (facebookActivity otherStat))
                 \<and> withinTimeframe currentTime (windowTime (timeWindow otherStat))) indexed);
             subsequentReels = map snd (filter (\<lambda>(otherIndex, otherStat).
                 \<not> (otherIndex \<le> index \<or> \<not> isReelsScrolling (facebookActivity otherStat))
                 \<and> withinTimeframe (windowTime (timeWindow otherStat)) currentTime) indexed)
         in if length recentReels > 0 \<or> length subsequentReels > 0 then
              (let beforeTimings = map (\<lambda>r. timeOfDay (timeWindow r)) recentReels;
                   afterTimings = map (\<lambda>r. timeOfDay (timeWindow r)) subsequentReels
               in withMasking stat True
                    (if length beforeTimings > 0 \<and> length afterTimings > 0
                     then ''Suspicious: Reels stopped at '' @ joinWith '', '' beforeTimings
                          @ '', resumed at '' @ joinWith '', '' afterTimings
                     else if length beforeTimings > 0
                     then (case recentReels of
                             r # _ \<Rightarrow> ''Suspicious: Strong messaging activity ''
                                      @ showMinutes currentTime (windowTime (timeWindow r))
                                      @ ''min after Reels stopped''
                           | [] \<Rightarrow> [])
                     else (case subsequentReels of
                             r # _ \<Rightarrow> ''Suspicious: Reels resumed ''
                                      @ showMinutes (windowTime (timeWindow r)) currentTime
                                      @ ''min after messaging''
                           | [] \<Rightarrow> [])))
            else withMasking stat False [])
      else withMasking stat False [])"

text \<open>
  \<open>detectReelsMasking\<close>: the windows are sorted by key with \<open>localeCompare\<close>, which on keys
  of the fixed form \<open>'yyyy-MM-dd HH:mm'\<close> is the lexicographic order of the characters;
  the sort is stable. Then every window is mapped with its index.
\<close>

definition detectReelsMasking :: "TimeWindowStats list \<Rightarrow> MaskedStats list" where
  "detectReelsMasking timeWindowStats =
     (let sortedStats = sort_key timeWindow timeWindowStats
      in map (\<lambda>(index, stat). maskWindow sortedStats index stat)
           (zip [0..<length sortedStats] sortedStats))"


section \<open>Sample windows\<close>

text \<open>An app-launch burst of eight Facebook domains, and the same burst with the send domain \<open>pm.facebook.com\<close>.\<close>

definition launchBurst :: "ProcessedLogEntry list" where
  "launchBurst =
     [mkEntry ''graph.facebook.com'' 1000, mkEntry ''gateway.facebook.com'' 2000,
      mkEntry ''edge-mqtt.facebook.com'' 3000, mkEntry ''star.fallback.c10r.facebook.com'' 4000,
      mkEntry ''www.facebook.com'' 5000, mkEntry ''web.facebook.com'' 6000,
      mkEntry ''api.facebook.com'' 7000, mkEntry ''connect.facebook.net'' 8000]"

definition launchBurstWithSend :: "ProcessedLogEntry list" where
  "launchBurstWithSend =
     [mkEntry ''graph.facebook.com'' 1000, mkEntry ''gateway.facebook.com'' 2000,
      mkEntry ''edge-mqtt.facebook.com'' 3000, mkEntry ''star.fallback.c10r.facebook.com'' 4000,
      mkEntry ''www.facebook.com'' 5000, mkEntry ''pm.facebook.com'' 6000,
      mkEntry ''api.facebook.com'' 7000, mkEntry ''connect.facebook.net'' 8000]"

text \<open>A window classified as reels scrolling, and a window with a WhatsApp voice note.\<close>

definition reelsWindow :: "string \<Rightarrow> TimeWindowStats" where
  "reelsWindow key =
     \<lparr>timeWindow = key, whatsappActivity = wa_initial,
      facebookActivity = \<lparr>isMessaging = False, fb_isMediaTransfer = False, isBackgroundRefresh = True,
                          isInstagramActivity = False, isReelsScrolling = True, fb_activityScore = 3,
                          isCall = False\<rparr>\<rparr>"

definition voiceNoteWindow :: "string \<Rightarrow> TimeWindowStats" where
  "voiceNoteWindow key =
     \<lparr>timeWindow = key,
      whatsappActivity = \<lparr>isTextMessage = True, wa_isMediaTransfer = True, isVoiceCall = False,
                          isVideoCall = False, wa_activityScore = 8, callDirection = ''outgoing''\<rparr>,
      facebookActivity = fb_initial\<rparr>"

section \<open>Properties of the matcher\<close>

lemma string_includes_sublist: "string_includes s p \<longleftrightarrow> sublist p s"
  by (induction s) (auto simp: sublist_Cons_right)

lemma string_includes_trans:
  "string_includes s p \<Longrightarrow> string_includes p q \<Longrightarrow> string_includes s q"
  unfolding string_includes_sublist by (rule sublist_order.order.trans)

lemma hasDomainPattern_iff:
  "hasDomainPattern es ps \<longleftrightarrow> (\<exists>e \<in> set es. \<exists>p \<in> set ps. string_includes (domain e) p)"
  by (simp add: hasDomainPattern_def list_ex_iff)

text \<open>
  C8 (as amended): \<open>hasDomainPattern\<close> is true exactly when some entry's domain contains some
  pattern as a contiguous substring, compared as written: the match is case-sensitive.
\<close>

theorem hasDomainPattern_substring:
  "hasDomainPattern es ps \<longleftrightarrow> (\<exists>e \<in> set es. \<exists>p \<in> set ps. sublist p (domain e))"
  by (simp add: hasDomainPattern_def list_ex_iff string_includes_sublist)

theorem hasDomainPattern_substring_witness:
  "hasDomainPattern [mkEntry ''g.whatsapp.net'' 0] [''whatsapp.net'']
   \<and> (\<exists>e \<in> set [mkEntry ''g.whatsapp.net'' 0]. \<exists>p \<in> set [''whatsapp.net'']. sublist p (domain e))"
proof -
  have h: "hasDomainPattern [mkEntry ''g.whatsapp.net'' 0] [''whatsapp.net'']"
    by (simp add: hasDomainPattern_def mkEntry_def)
  from h hasDomainPattern_substring [of "[mkEntry ''g.whatsapp.net'' 0]" "[''whatsapp.net'']"]
  show ?thesis by blast
qed

text \<open>
  C8 as stated fails: a domain that differs from the pattern only in letter case matches
  under case normalisation, and does not match in the code.
\<close>

theorem hasDomainPattern_case_counterexample:
  "hasPattern_case_normalized [mkEntry ''G.WHATSAPP.NET'' 0] [''g.whatsapp.net'']
   \<and> \<not> hasDomainPattern [mkEntry ''G.WHATSAPP.NET'' 0] [''g.whatsapp.net'']"
  by code_simp

section \<open>Properties of the WhatsApp classifier\<close>

lemma hasDomainPattern_sort_key [simp]:
  "hasDomainPattern (sort_key f es) ps = hasDomainPattern es ps"
  by (simp add: hasDomainPattern_iff)

lemma hasNetSeerCDN_sort_key [simp]: "hasNetSeerCDN (sort_key f es) = hasNetSeerCDN es"
  by (simp add: hasNetSeerCDN_def list_ex_iff)

lemma wa_incomingCall_isVideoCall:
  "isVideoCall (wa_incomingCall es as st) = isVideoCall st"
  by (induction as) (simp_all add: Let_def)

lemma wa_voiceNoteLoop_isVideoCall:
  "isVideoCall (wa_voiceNoteLoop es ss st) = isVideoCall st"
  by (induction ss) (simp_all add: Let_def)

lemma wa_voiceNoteReceivedLoop_isVideoCall:
  "isVideoCall (wa_voiceNoteReceivedLoop es as st) = isVideoCall st"
  by (induction as) (simp_all add: Let_def)

lemma wa_steps_isVideoCall:
  "isVideoCall (wa_voiceNote es st) = isVideoCall st"
  "isVideoCall (wa_textMessage es st) = isVideoCall st"
  "isVideoCall (wa_mediaSent es st) = isVideoCall st"
  "isVideoCall (wa_voiceNoteReceived es st) = isVideoCall st"
  "isVideoCall (wa_mediaReceived es st) = isVideoCall st"
  "isVideoCall (wa_persistent st) = isVideoCall st"
  "isVideoCall (wa_minimal es st) = isVideoCall st"
  by (simp_all add: wa_voiceNote_def wa_textMessage_def wa_mediaSent_def wa_voiceNoteReceived_def
        wa_mediaReceived_def wa_persistent_def wa_minimal_def Let_def
        wa_voiceNoteLoop_isVideoCall wa_voiceNoteReceivedLoop_isVideoCall)

text \<open>
  C9: whatever the window, \<open>detectWhatsAppActivity\<close> returns \<open>isVideoCall = false\<close>; no section
  of the function assigns the flag.
\<close>

theorem detectWhatsAppActivity_never_video:
  "isVideoCall (detectWhatsAppActivity windowEntries) = False"
  by (simp add: detectWhatsAppActivity_def Let_def wa_steps_isVideoCall
        wa_incomingCall_isVideoCall wa_initial_def)

lemma wa_incomingCall_found:
  assumes "a \<in> set as"
    and "filter isSignalling (findEntriesInWindow es (parsedTimestamp a) 10 5) \<noteq> []"
    and "filter (\<lambda>entry. string_includes (domain entry) ''rupload.facebook.com''
                        \<or> string_includes (domain entry) ''edge-mqtt.facebook.com'')
           (findEntriesInWindow es (parsedTimestamp a) 10 15) = []"
  shows "wa_incomingCall es as st =
           st\<lparr>isVoiceCall := True, callDirection := ''incoming'',
              wa_activityScore := wa_activityScore st + 8\<rparr>"
  using assms
proof (induction as)
  case Nil
  then show ?case by simp
next
  case (Cons x xs)
  show ?case
  proof (cases "x = a")
    case True
    with Cons.prems show ?thesis by (simp add: Let_def)
  next
    case False
    with Cons.prems have "a \<in> set xs" by simp
    with Cons have IH: "wa_incomingCall es xs st =
           st\<lparr>isVoiceCall := True, callDirection := ''incoming'',
              wa_activityScore := wa_activityScore st + 8\<rparr>" by simp
    show ?thesis by (simp add: Let_def IH)
  qed
qed

lemma detectAPNs_sort_key_set [simp]: "set (detectAPNs (sort_key f es)) = {e \<in> set es. isAPNs e}"
  by (auto simp: detectAPNs_def)

lemma findEntriesInWindow_set:
  "set (findEntriesInWindow es t b a) =
     {e \<in> set es. - (b * 1000) \<le> parsedTimestamp e - t \<and> parsedTimestamp e - t \<le> a * 1000}"
  by (auto simp: findEntriesInWindow_def)

text \<open>
  C2 (as amended): a push entry with a signalling entry at most 10 s before and at most 5 s
  after it, no upload or MQTT entry of Facebook from 10 s before to 15 s after it, and no
  WhatsApp media upload or download domain in the window: the result is an incoming voice
  call with score 8.
\<close>

theorem detectWhatsAppActivity_incoming_call:
  assumes anchor: "a \<in> set es" "isAPNs a"
    and signal: "s \<in> set es" "isSignalling s"
    and near: "- 10000 \<le> parsedTimestamp s - parsedTimestamp a"
              "parsedTimestamp s - parsedTimestamp a \<le> 5000"
    and clear: "\<forall>e \<in> set es.
                  - 10000 \<le> parsedTimestamp e - parsedTimestamp a
                  \<and> parsedTimestamp e - parsedTimestamp a \<le> 15000
                  \<longrightarrow> \<not> string_includes (domain e) ''rupload.facebook.com''
                    \<and> \<not> string_includes (domain e) ''edge-mqtt.facebook.com''"
    and nomedia: "\<not> hasDomainPattern es WHATSAPP_mediaUpload"
                 "\<not> hasDomainPattern es WHATSAPP_mediaDownload"
  shows "detectWhatsAppActivity es =
           \<lparr>isTextMessage = False, wa_isMediaTransfer = False, isVoiceCall = True,
            isVideoCall = False, wa_activityScore = 8, callDirection = ''incoming''\<rparr>"
proof -
  let ?S = "sort_key parsedTimestamp es"
  have sig: "hasDomainPattern es WHATSAPP_signalling"
    using signal by (auto simp: hasDomainPattern_iff isSignalling_def list_ex_iff)
  have apns: "a \<in> set (detectAPNs ?S)"
    using anchor by simp
  then have apns_ne: "length (detectAPNs ?S) > 0"
    by (cases "detectAPNs ?S") auto
  have "s \<in> set (filter isSignalling (findEntriesInWindow ?S (parsedTimestamp a) 10 5))"
    using signal near by (simp add: findEntriesInWindow_set)
  then have c1: "filter isSignalling (findEntriesInWindow ?S (parsedTimestamp a) 10 5) \<noteq> []"
    by (metis empty_iff empty_set)
  have "set (filter (\<lambda>entry. string_includes (domain entry) ''rupload.facebook.com''
                        \<or> string_includes (domain entry) ''edge-mqtt.facebook.com'')
           (findEntriesInWindow ?S (parsedTimestamp a) 10 15)) = {}"
    using clear by (auto simp: findEntriesInWindow_set)
  then have c2: "filter (\<lambda>entry. string_includes (domain entry) ''rupload.facebook.com''
                        \<or> string_includes (domain entry) ''edge-mqtt.facebook.com'')
           (findEntriesInWindow ?S (parsedTimestamp a) 10 15) = []"
    by (simp only: set_empty)
  have call: "wa_incomingCall ?S (detectAPNs ?S) wa_initial =
      \<lparr>isTextMessage = False, wa_isMediaTransfer = False, isVoiceCall = True,
       isVideoCall = False, wa_activityScore = 8, callDirection = ''incoming''\<rparr>"
    by (simp add: wa_incomingCall_found [OF apns c1 c2] wa_initial_def)
  show ?thesis
    using sig apns_ne nomedia
    by (simp add: detectWhatsAppActivity_def Let_def call wa_voiceNote_def wa_textMessage_def
          wa_mediaSent_def wa_voiceNoteReceived_def wa_mediaReceived_def wa_persistent_def
          wa_minimal_def)
qed

theorem detectWhatsAppActivity_incoming_call_witness:
  "detectWhatsAppActivity [mkEntry ''1-courier.push.apple.com'' 0, mkEntry ''g.whatsapp.net'' 5000] =
           \<lparr>isTextMessage = False, wa_isMediaTransfer = False, isVoiceCall = True,
            isVideoCall = False, wa_activityScore = 8, callDirection = ''incoming''\<rparr>"
proof (rule detectWhatsAppActivity_incoming_call
         [where a = "mkEntry ''1-courier.push.apple.com'' 0" and s = "mkEntry ''g.whatsapp.net'' 5000"])
  show "mkEntry ''1-courier.push.apple.com'' 0
          \<in> set [mkEntry ''1-courier.push.apple.com'' 0, mkEntry ''g.whatsapp.net'' 5000]" by simp
  show "isAPNs (mkEntry ''1-courier.push.apple.com'' 0)" by code_simp
  show "mkEntry ''g.whatsapp.net'' 5000
          \<in> set [mkEntry ''1-courier.push.apple.com'' 0, mkEntry ''g.whatsapp.net'' 5000]" by simp
  show "isSignalling (mkEntry ''g.whatsapp.net'' 5000)" by code_simp
  show "- 10000 \<le> parsedTimestamp (mkEntry ''g.whatsapp.net'' 5000)
                   - parsedTimestamp (mkEntry ''1-courier.push.apple.com'' 0)"
    by (simp add: mkEntry_def)
  show "parsedTimestamp (mkEntry ''g.whatsapp.net'' 5000)
          - parsedTimestamp (mkEntry ''1-courier.push.apple.com'' 0) \<le> 5000"
    by (simp add: mkEntry_def)
  show "\<forall>e \<in> set [mkEntry ''1-courier.push.apple.com'' 0, mkEntry ''g.whatsapp.net'' 5000].
          - 10000 \<le> parsedTimestamp e - parsedTimestamp (mkEntry ''1-courier.push.apple.com'' 0)
          \<and> parsedTimestamp e - parsedTimestamp (mkEntry ''1-courier.push.apple.com'' 0) \<le> 15000
          \<longrightarrow> \<not> string_includes (domain e) ''rupload.facebook.com''
            \<and> \<not> string_includes (domain e) ''edge-mqtt.facebook.com''"
    by (simp add: mkEntry_def)
  show "\<not> hasDomainPattern [mkEntry ''1-courier.push.apple.com'' 0, mkEntry ''g.whatsapp.net'' 5000]
            WHATSAPP_mediaUpload" by code_simp
  show "\<not> hasDomainPattern [mkEntry ''1-courier.push.apple.com'' 0, mkEntry ''g.whatsapp.net'' 5000]
            WHATSAPP_mediaDownload" by code_simp
qed

text \<open>
  C2 as stated fails: with the signalling entry 7 s after the push entry, the entry is
  outside the [-10 s, +5 s] range; the window is a text message with score 7 and no call.
\<close>

theorem detectWhatsAppActivity_call_7s_counterexample:
  "detectWhatsAppActivity [mkEntry ''1-courier.push.apple.com'' 0, mkEntry ''g.whatsapp.net'' 7000] =
           \<lparr>isTextMessage = True, wa_isMediaTransfer = False, isVoiceCall = False,
            isVideoCall = False, wa_activityScore = 7, callDirection = []\<rparr>"
  by code_simp

section \<open>Properties of the Facebook classifier\<close>

lemma fb_flags_sort_key [simp]:
  "fb_hasCalls (sort_key f es) = fb_hasCalls es"
  "fb_hasTextSend (sort_key f es) = fb_hasTextSend es"
  "fb_hasMessagingMQTT (sort_key f es) = fb_hasMessagingMQTT es"
  "fb_hasMediaUpload (sort_key f es) = fb_hasMediaUpload es"
  "fb_hasMediaDownload (sort_key f es) = fb_hasMediaDownload es"
  "fb_hasCore (sort_key f es) = fb_hasCore es"
  "fb_hasBackground (sort_key f es) = fb_hasBackground es"
  "fb_hasReelsVideo (sort_key f es) = fb_hasReelsVideo es"
  by (simp_all add: fb_hasCalls_def fb_hasTextSend_def fb_hasMessagingMQTT_def fb_hasMediaUpload_def
        fb_hasMediaDownload_def fb_hasCore_def fb_hasBackground_def fb_hasReelsVideo_def)

lemma hasVideoStaticAssets_sort_key [simp]:
  "hasVideoStaticAssets (sort_key f es) = hasVideoStaticAssets es"
  by (simp add: hasVideoStaticAssets_def list_ex_iff)

text \<open>A pattern list whose patterns all contain a pattern of a second list matches only where the second does.\<close>

lemma hasDomainPattern_mono:
  assumes "hasDomainPattern es ps"
    and "\<forall>p \<in> set ps. \<exists>q \<in> set qs. string_includes p q"
  shows "hasDomainPattern es qs"
proof -
  from assms(1) obtain e p where e: "e \<in> set es" "p \<in> set ps" "string_includes (domain e) p"
    by (auto simp: hasDomainPattern_iff)
  from assms(2) e(2) obtain q where q: "q \<in> set qs" "string_includes p q" by blast
  from e(3) q(2) have "string_includes (domain e) q" by (rule string_includes_trans)
  with e(1) q(1) show ?thesis by (auto simp: hasDomainPattern_iff)
qed

lemma fb_apnsLoop_isReelsScrolling:
  "isReelsScrolling (fb_apnsLoop es u d as st) = isReelsScrolling st"
  by (induction as) (simp_all add: Let_def)

lemma fb_steps_isReelsScrolling:
  "isReelsScrolling (fb_callDetection es st) = isReelsScrolling st"
  "isReelsScrolling (fb_textSent es st) = isReelsScrolling st"
  "isReelsScrolling (fb_mediaExchange es st) = isReelsScrolling st"
  "isReelsScrolling (fb_apiMessaging es st) = isReelsScrolling st"
  "isReelsScrolling (fb_isolatedNotification es st) = isReelsScrolling st"
  "isReelsScrolling (fb_mediaSent es st) = isReelsScrolling st"
  "isReelsScrolling (fb_mediaReceived es st) = isReelsScrolling st"
  "isReelsScrolling (fb_instagram es st) = isReelsScrolling st"
  "isReelsScrolling (fb_backgroundRefresh es st) = isReelsScrolling st"
  "isReelsScrolling (fb_minimal es st) = isReelsScrolling st"
  by (simp_all add: fb_callDetection_def fb_textSent_def fb_mediaExchange_def fb_apiMessaging_def
        fb_isolatedNotification_def fb_mediaSent_def fb_mediaReceived_def fb_instagram_def
        fb_backgroundRefresh_def fb_minimal_def Let_def fb_apnsLoop_isReelsScrolling)

lemma fb_afterReels_isReelsScrolling:
  "isReelsScrolling (fb_afterReels es st) = isReelsScrolling st"
  by (simp add: fb_afterReels_def Let_def fb_steps_isReelsScrolling)

text \<open>
  C10: when \<open>detectFacebookActivity\<close> returns \<open>isReelsScrolling = true\<close>, the same result
  has \<open>isMessaging\<close>, \<open>isMediaTransfer\<close> and \<open>isCall\<close> false and the score 3.
\<close>

theorem detectFacebookActivity_reels_exclusive:
  assumes "isReelsScrolling (detectFacebookActivity es)"
  shows "\<not> isMessaging (detectFacebookActivity es)
       \<and> \<not> fb_isMediaTransfer (detectFacebookActivity es)
       \<and> \<not> isCall (detectFacebookActivity es)
       \<and> fb_activityScore (detectFacebookActivity es) = 3"
  using assms
  by (simp add: detectFacebookActivity_def Let_def fb_afterReels_isReelsScrolling fb_initial_def
        split: if_splits)

theorem detectFacebookActivity_reels_exclusive_witness:
  "isReelsScrolling (detectFacebookActivity
      [mkEntry ''4bea6f62-netseer-ipaddr-assoc.xy.fbcdn.net'' 0, mkEntry ''edge-mqtt.facebook.com'' 1000])
   \<and> \<not> isMessaging (detectFacebookActivity
      [mkEntry ''4bea6f62-netseer-ipaddr-assoc.xy.fbcdn.net'' 0, mkEntry ''edge-mqtt.facebook.com'' 1000])
   \<and> \<not> fb_isMediaTransfer (detectFacebookActivity
      [mkEntry ''4bea6f62-netseer-ipaddr-assoc.xy.fbcdn.net'' 0, mkEntry ''edge-mqtt.facebook.com'' 1000])
   \<and> \<not> isCall (detectFacebookActivity
      [mkEntry ''4bea6f62-netseer-ipaddr-assoc.xy.fbcdn.net'' 0, mkEntry ''edge-mqtt.facebook.com'' 1000])
   \<and> fb_activityScore (detectFacebookActivity
      [mkEntry ''4bea6f62-netseer-ipaddr-assoc.xy.fbcdn.net'' 0, mkEntry ''edge-mqtt.facebook.com'' 1000]) = 3"
proof -
  have h: "isReelsScrolling (detectFacebookActivity
      [mkEntry ''4bea6f62-netseer-ipaddr-assoc.xy.fbcdn.net'' 0, mkEntry ''edge-mqtt.facebook.com'' 1000])"
    by code_simp
  from h detectFacebookActivity_reels_exclusive [OF h] show ?thesis by blast
qed

lemma hasNetSeerCDN_reelsVideo: "hasNetSeerCDN es \<Longrightarrow> fb_hasReelsVideo es"
  by (auto simp: hasNetSeerCDN_def fb_hasReelsVideo_def hasDomainPattern_iff list_ex_iff
        FACEBOOK_reelsVideo_def)

lemma hasVideoStaticAssets_reelsVideo: "hasVideoStaticAssets es \<Longrightarrow> fb_hasReelsVideo es"
  by (auto simp: hasVideoStaticAssets_def fb_hasReelsVideo_def hasDomainPattern_iff list_ex_iff
        FACEBOOK_reelsVideo_def)

text \<open>
  C1 (as amended): in a window that has a Facebook core, realtime-messaging, text-send or
  upload domain, a NetSeer marker, or a domain containing both \<open>static-\<close> and
  \<open>.xx.fbcdn.net\<close>, gives \<open>isReelsScrolling = true\<close> and \<open>isMessaging = false\<close>, whatever
  else is in the window.
\<close>

theorem detectFacebookActivity_reels_override:
  assumes present: "fb_hasCore es \<or> fb_hasMessagingMQTT es \<or> fb_hasTextSend es \<or> fb_hasMediaUpload es"
    and marker: "hasNetSeerCDN es \<or> hasVideoStaticAssets es"
  shows "isReelsScrolling (detectFacebookActivity es) \<and> \<not> isMessaging (detectFacebookActivity es)"
proof -
  from marker have "fb_hasReelsVideo es"
    using hasNetSeerCDN_reelsVideo hasVideoStaticAssets_reelsVideo by blast
  with present marker show ?thesis
    by (auto simp: detectFacebookActivity_def Let_def fb_initial_def)
qed

theorem detectFacebookActivity_reels_override_witness:
  "isReelsScrolling (detectFacebookActivity
      [mkEntry ''4bea6f62-netseer-ipaddr-assoc.xy.fbcdn.net'' 0, mkEntry ''pm.facebook.com'' 1000,
       mkEntry ''edge-mqtt.facebook.com'' 2000])
   \<and> \<not> isMessaging (detectFacebookActivity
      [mkEntry ''4bea6f62-netseer-ipaddr-assoc.xy.fbcdn.net'' 0, mkEntry ''pm.facebook.com'' 1000,
       mkEntry ''edge-mqtt.facebook.com'' 2000])"
proof (rule detectFacebookActivity_reels_override)
  show "fb_hasCore [mkEntry ''4bea6f62-netseer-ipaddr-assoc.xy.fbcdn.net'' 0,
                    mkEntry ''pm.facebook.com'' 1000, mkEntry ''edge-mqtt.facebook.com'' 2000]
      \<or> fb_hasMessagingMQTT [mkEntry ''4bea6f62-netseer-ipaddr-assoc.xy.fbcdn.net'' 0,
                    mkEntry ''pm.facebook.com'' 1000, mkEntry ''edge-mqtt.facebook.com'' 2000]
      \<or> fb_hasTextSend [mkEntry ''4bea6f62-netseer-ipaddr-assoc.xy.fbcdn.net'' 0,
                    mkEntry ''pm.facebook.com'' 1000, mkEntry ''edge-mqtt.facebook.com'' 2000]
      \<or> fb_hasMediaUpload [mkEntry ''4bea6f62-netseer-ipaddr-assoc.xy.fbcdn.net'' 0,
                    mkEntry ''pm.facebook.com'' 1000, mkEntry ''edge-mqtt.facebook.com'' 2000]"
    by code_simp
  show "hasNetSeerCDN [mkEntry ''4bea6f62-netseer-ipaddr-assoc.xy.fbcdn.net'' 0,
                    mkEntry ''pm.facebook.com'' 1000, mkEntry ''edge-mqtt.facebook.com'' 2000]
      \<or> hasVideoStaticAssets [mkEntry ''4bea6f62-netseer-ipaddr-assoc.xy.fbcdn.net'' 0,
                    mkEntry ''pm.facebook.com'' 1000, mkEntry ''edge-mqtt.facebook.com'' 2000]"
    by code_simp
qed

text \<open>
  C1 as stated fails twice: a window whose only entry carries the NetSeer marker returns
  before the reels section, with every flag false; and a window with the marker
  \<open>oculuscdn.com\<close> beside a text-send and an MQTT domain is classified as messaging.
\<close>

theorem detectFacebookActivity_reels_counterexample:
  "hasDomainPattern [mkEntry ''4bea6f62-netseer-ipaddr-assoc.xy.fbcdn.net'' 0] FACEBOOK_reelsVideo
   \<and> \<not> isReelsScrolling (detectFacebookActivity [mkEntry ''4bea6f62-netseer-ipaddr-assoc.xy.fbcdn.net'' 0])
   \<and> hasDomainPattern [mkEntry ''oculuscdn.com'' 0, mkEntry ''pm.facebook.com'' 1000,
                        mkEntry ''edge-mqtt.facebook.com'' 2000] FACEBOOK_reelsVideo
   \<and> \<not> isReelsScrolling (detectFacebookActivity
        [mkEntry ''oculuscdn.com'' 0, mkEntry ''pm.facebook.com'' 1000, mkEntry ''edge-mqtt.facebook.com'' 2000])
   \<and> isMessaging (detectFacebookActivity
        [mkEntry ''oculuscdn.com'' 0, mkEntry ''pm.facebook.com'' 1000, mkEntry ''edge-mqtt.facebook.com'' 2000])"
  by code_simp

lemma uniqueFacebookDomains_sort_key [simp]:
  "uniqueFacebookDomains (sort_key f es) = uniqueFacebookDomains es"
  by (simp add: uniqueFacebookDomains_def length_remdups_card_conv)

lemma fb_callDetection_isMessaging: "isMessaging (fb_callDetection es st) = isMessaging st"
  by (simp add: fb_callDetection_def Let_def)

lemma staticAssets_mediaDownload: "hasVideoStaticAssets es \<Longrightarrow> fb_hasMediaDownload es"
proof -
  assume "hasVideoStaticAssets es"
  then obtain e where e: "e \<in> set es" "string_includes (domain e) ''.xx.fbcdn.net''"
    by (auto simp: hasVideoStaticAssets_def list_ex_iff)
  have "string_includes ''.xx.fbcdn.net'' ''.fbcdn.net''" by code_simp
  with e(2) have "string_includes (domain e) ''.fbcdn.net''" by (rule string_includes_trans)
  with e(1) show ?thesis
    by (auto simp: fb_hasMediaDownload_def hasDomainPattern_iff FACEBOOK_mediaDownload_def)
qed

lemma www_facebook_core: "hasDomainPattern es [''www.facebook.com''] \<Longrightarrow> fb_hasCore es"
  unfolding fb_hasCore_def
  by (erule hasDomainPattern_mono) code_simp

text \<open>
  C3 (as amended): 8 or more unique Facebook domains with the launch quartet, no media
  upload or download domain, no push entry, and moreover no \<open>pm.facebook.com\<close> domain and
  no NetSeer marker: the result is a background refresh with score 1 and no messaging.
\<close>

theorem detectFacebookActivity_app_launch:
  assumes many: "uniqueFacebookDomains es \<ge> 8"
    and quartet: "hasDomainPattern es [''gateway.facebook.com'']"
                 "hasDomainPattern es [''graph.facebook.com'']"
                 "hasDomainPattern es [''edge-mqtt.facebook.com'']"
                 "hasDomainPattern es [''www.facebook.com'']"
    and nomedia: "\<not> fb_hasMediaUpload es" "\<not> fb_hasMediaDownload es"
    and nopush: "detectAPNs es = []"
    and nopm: "\<not> hasDomainPattern es [''pm.facebook.com'']"
    and nonetseer: "\<not> hasNetSeerCDN es"
  shows "isBackgroundRefresh (detectFacebookActivity es)
       \<and> fb_activityScore (detectFacebookActivity es) = 1
       \<and> \<not> isMessaging (detectFacebookActivity es)"
proof -
  let ?S = "sort_key parsedTimestamp es"
  have core: "fb_hasCore es" using quartet(4) by (rule www_facebook_core)
  have nostatic: "\<not> hasVideoStaticAssets es"
    using nomedia(2) staticAssets_mediaDownload by blast
  have nospecific: "\<not> hasSpecificMessagingEvidence ?S"
    using many nomedia nopm
    by (simp add: hasSpecificMessagingEvidence_def Let_def hasStrongTextSendEvidence_def)
  have launch: "isLikelyAppLaunch ?S"
    using quartet nomedia nospecific by (simp add: isLikelyAppLaunch_def)
  have rest: "fb_afterReels ?S fb_initial =
      (fb_callDetection ?S fb_initial)\<lparr>isBackgroundRefresh := True, fb_activityScore := 1\<rparr>"
    using launch by (simp add: fb_afterReels_def Let_def)
  have "detectFacebookActivity es = fb_afterReels ?S fb_initial"
    using core nonetseer nostatic by (simp add: detectFacebookActivity_def Let_def)
  with rest show ?thesis
    by (simp add: fb_callDetection_isMessaging fb_initial_def)
qed

theorem detectFacebookActivity_app_launch_witness:
  "isBackgroundRefresh (detectFacebookActivity launchBurst)
   \<and> fb_activityScore (detectFacebookActivity launchBurst) = 1
   \<and> \<not> isMessaging (detectFacebookActivity launchBurst)"
proof (rule detectFacebookActivity_app_launch)
  show "uniqueFacebookDomains launchBurst \<ge> 8" by code_simp
  show "hasDomainPattern launchBurst [''gateway.facebook.com'']" by code_simp
  show "hasDomainPattern launchBurst [''graph.facebook.com'']" by code_simp
  show "hasDomainPattern launchBurst [''edge-mqtt.facebook.com'']" by code_simp
  show "hasDomainPattern launchBurst [''www.facebook.com'']" by code_simp
  show "\<not> fb_hasMediaUpload launchBurst" by code_simp
  show "\<not> fb_hasMediaDownload launchBurst" by code_simp
  show "detectAPNs launchBurst = []" by code_simp
  show "\<not> hasDomainPattern launchBurst [''pm.facebook.com'']" by code_simp
  show "\<not> hasNetSeerCDN launchBurst" by code_simp
qed

text \<open>
  C3 as stated fails: eight unique Facebook domains with the launch quartet, no media and
  no push entry, one of them \<open>pm.facebook.com\<close>: the window is classified as messaging
  with score 6 and is no background refresh.
\<close>

theorem detectFacebookActivity_app_launch_counterexample:
  "uniqueFacebookDomains launchBurstWithSend \<ge> 8
   \<and> hasDomainPattern launchBurstWithSend [''gateway.facebook.com'']
   \<and> hasDomainPattern launchBurstWithSend [''graph.facebook.com'']
   \<and> hasDomainPattern launchBurstWithSend [''edge-mqtt.facebook.com'']
   \<and> hasDomainPattern launchBurstWithSend [''www.facebook.com'']
   \<and> \<not> fb_hasMediaUpload launchBurstWithSend \<and> \<not> fb_hasMediaDownload launchBurstWithSend
   \<and> detectAPNs launchBurstWithSend = []
   \<and> detectFacebookActivity launchBurstWithSend =
        \<lparr>isMessaging = True, fb_isMediaTransfer = False, isBackgroundRefresh = False,
         isInstagramActivity = False, isReelsScrolling = False, fb_activityScore = 6, isCall = False\<rparr>"
  by code_simp

text \<open>
  C4: a window in which no entry matches a WhatsApp core or signalling pattern, nor a
  Facebook core or realtime-messaging pattern (the empty window among them), gets from
  both classifiers the result with every flag false, score 0 and no direction.
\<close>

theorem no_core_domains_zero_result:
  assumes "\<not> hasDomainPattern es WHATSAPP_core" "\<not> hasDomainPattern es WHATSAPP_signalling"
    and "\<not> hasDomainPattern es FACEBOOK_core" "\<not> hasDomainPattern es FACEBOOK_messaging"
  shows "detectWhatsAppActivity es =
           \<lparr>isTextMessage = False, wa_isMediaTransfer = False, isVoiceCall = False,
            isVideoCall = False, wa_activityScore = 0, callDirection = []\<rparr>
       \<and> detectFacebookActivity es =
           \<lparr>isMessaging = False, fb_isMediaTransfer = False, isBackgroundRefresh = False,
            isInstagramActivity = False, isReelsScrolling = False, fb_activityScore = 0,
            isCall = False\<rparr>"
proof -
  have "\<not> fb_hasTextSend es"
    unfolding fb_hasTextSend_def
    using assms(3) hasDomainPattern_mono [of es FACEBOOK_textSend FACEBOOK_core]
    by (auto simp: FACEBOOK_textSend_def FACEBOOK_core_def)
  moreover have "\<not> fb_hasMediaUpload es"
    unfolding fb_hasMediaUpload_def
    using assms(3) hasDomainPattern_mono [of es FACEBOOK_mediaUpload FACEBOOK_core]
    by (auto simp: FACEBOOK_mediaUpload_def FACEBOOK_core_def)
  ultimately show ?thesis
    using assms
    by (simp add: detectWhatsAppActivity_def detectFacebookActivity_def Let_def wa_initial_def
          fb_initial_def fb_hasCore_def fb_hasMessagingMQTT_def)
qed

theorem no_core_domains_zero_result_witness:
  "detectWhatsAppActivity [] =
           \<lparr>isTextMessage = False, wa_isMediaTransfer = False, isVoiceCall = False,
            isVideoCall = False, wa_activityScore = 0, callDirection = []\<rparr>
   \<and> detectFacebookActivity [] =
           \<lparr>isMessaging = False, fb_isMediaTransfer = False, isBackgroundRefresh = False,
            isInstagramActivity = False, isReelsScrolling = False, fb_activityScore = 0,
            isCall = False\<rparr>
   \<and> detectWhatsAppActivity [mkEntry ''www.google.com'' 0, mkEntry ''1-courier.push.apple.com'' 500] =
           \<lparr>isTextMessage = False, wa_isMediaTransfer = False, isVoiceCall = False,
            isVideoCall = False, wa_activityScore = 0, callDirection = []\<rparr>
   \<and> detectFacebookActivity [mkEntry ''www.google.com'' 0, mkEntry ''1-courier.push.apple.com'' 500] =
           \<lparr>isMessaging = False, fb_isMediaTransfer = False, isBackgroundRefresh = False,
            isInstagramActivity = False, isReelsScrolling = False, fb_activityScore = 0,
            isCall = False\<rparr>"
proof -
  have e: "\<not> hasDomainPattern [] WHATSAPP_core" "\<not> hasDomainPattern [] WHATSAPP_signalling"
          "\<not> hasDomainPattern [] FACEBOOK_core" "\<not> hasDomainPattern [] FACEBOOK_messaging"
    by (simp_all add: hasDomainPattern_def)
  have g: "\<not> hasDomainPattern [mkEntry ''www.google.com'' 0, mkEntry ''1-courier.push.apple.com'' 500] WHATSAPP_core"
          "\<not> hasDomainPattern [mkEntry ''www.google.com'' 0, mkEntry ''1-courier.push.apple.com'' 500] WHATSAPP_signalling"
          "\<not> hasDomainPattern [mkEntry ''www.google.com'' 0, mkEntry ''1-courier.push.apple.com'' 500] FACEBOOK_core"
          "\<not> hasDomainPattern [mkEntry ''www.google.com'' 0, mkEntry ''1-courier.push.apple.com'' 500] FACEBOOK_messaging"
    by code_simp+
  from no_core_domains_zero_result [OF e] no_core_domains_zero_result [OF g]
  show ?thesis by blast
qed

section \<open>Properties of the relationship concern scorer\<close>

lemma pushMatches_set:
  "set (pushMatches d ps found) = set found \<union> {p \<in> set ps. string_includes d p}"
  unfolding pushMatches_def by (induction ps arbitrary: found) auto

lemma pushMatches_distinct: "distinct found \<Longrightarrow> distinct (pushMatches d ps found)"
  unfolding pushMatches_def by (induction ps arbitrary: found) auto

lemma checkDomain_sets:
  "set (datingApps (checkDomain st d)) =
     set (datingApps st) \<union> matchedPatterns INDICATORS_datingApps [d]"
  "set (anonymousPlatforms (checkDomain st d)) =
     set (anonymousPlatforms st) \<union> matchedPatterns INDICATORS_anonymousPlatforms [d]"
  "set (alternativeMessaging (checkDomain st d)) =
     set (alternativeMessaging st) \<union> matchedPatterns INDICATORS_alternativeMessaging [d]"
  "set (videoCalling (checkDomain st d)) =
     set (videoCalling st) \<union> matchedPatterns INDICATORS_videoCalling [d]"
  "set (socialMessaging (checkDomain st d)) =
     set (socialMessaging st) \<union> matchedPatterns INDICATORS_socialMessaging [d]"
  by (auto simp: checkDomain_def pushMatches_set matchedPatterns_def)

lemma checkDomain_distinct:
  "distinct (datingApps st) \<Longrightarrow> distinct (datingApps (checkDomain st d))"
  "distinct (anonymousPlatforms st) \<Longrightarrow> distinct (anonymousPlatforms (checkDomain st d))"
  "distinct (alternativeMessaging st) \<Longrightarrow> distinct (alternativeMessaging (checkDomain st d))"
  "distinct (videoCalling st) \<Longrightarrow> distinct (videoCalling (checkDomain st d))"
  "distinct (socialMessaging st) \<Longrightarrow> distinct (socialMessaging (checkDomain st d))"
  by (simp_all add: checkDomain_def pushMatches_distinct)

lemma matchedPatterns_Cons:
  "matchedPatterns ps (d # ds) = matchedPatterns ps [d] \<union> matchedPatterns ps ds"
  by (auto simp: matchedPatterns_def)

lemma matchedPatterns_Nil [simp]: "matchedPatterns ps [] = {}"
  by (simp add: matchedPatterns_def)

lemma foldl_checkDomain_sets:
  "set (datingApps (foldl checkDomain st ds)) =
     set (datingApps st) \<union> matchedPatterns INDICATORS_datingApps ds"
  "set (anonymousPlatforms (foldl checkDomain st ds)) =
     set (anonymousPlatforms st) \<union> matchedPatterns INDICATORS_anonymousPlatforms ds"
  "set (alternativeMessaging (foldl checkDomain st ds)) =
     set (alternativeMessaging st) \<union> matchedPatterns INDICATORS_alternativeMessaging ds"
  "set (videoCalling (foldl checkDomain st ds)) =
     set (videoCalling st) \<union> matchedPatterns INDICATORS_videoCalling ds"
  "set (socialMessaging (foldl checkDomain st ds)) =
     set (socialMessaging st) \<union> matchedPatterns INDICATORS_socialMessaging ds"
proof (induction ds arbitrary: st)
  case Nil
  { case 1 show ?case by simp }
  { case 2 show ?case by simp }
  { case 3 show ?case by simp }
  { case 4 show ?case by simp }
  { case 5 show ?case by simp }
next
  case (Cons d ds)
  { case 1 show ?case
      by (simp add: Cons.IH(1) checkDomain_sets(1) matchedPatterns_Cons [of _ d ds] Un_assoc) }
  { case 2 show ?case
      by (simp add: Cons.IH(2) checkDomain_sets(2) matchedPatterns_Cons [of _ d ds] Un_assoc) }
  { case 3 show ?case
      by (simp add: Cons.IH(3) checkDomain_sets(3) matchedPatterns_Cons [of _ d ds] Un_assoc) }
  { case 4 show ?case
      by (simp add: Cons.IH(4) checkDomain_sets(4) matchedPatterns_Cons [of _ d ds] Un_assoc) }
  { case 5 show ?case
      by (simp add: Cons.IH(5) checkDomain_sets(5) matchedPatterns_Cons [of _ d ds] Un_assoc) }
qed

lemma foldl_checkDomain_distinct:
  "distinct (datingApps st) \<Longrightarrow> distinct (datingApps (foldl checkDomain st ds))"
  "distinct (anonymousPlatforms st) \<Longrightarrow> distinct (anonymousPlatforms (foldl checkDomain st ds))"
  "distinct (alternativeMessaging st) \<Longrightarrow> distinct (alternativeMessaging (foldl checkDomain st ds))"
  "distinct (videoCalling st) \<Longrightarrow> distinct (videoCalling (foldl checkDomain st ds))"
  "distinct (socialMessaging st) \<Longrightarrow> distinct (socialMessaging (foldl checkDomain st ds))"
  by (induction ds arbitrary: st) (simp_all add: checkDomain_distinct)

lemma length_matches:
  "length (datingApps (foldl checkDomain rc_initial ds)) = card (matchedPatterns INDICATORS_datingApps ds)"
  "length (anonymousPlatforms (foldl checkDomain rc_initial ds)) = card (matchedPatterns INDICATORS_anonymousPlatforms ds)"
  "length (alternativeMessaging (foldl checkDomain rc_initial ds)) = card (matchedPatterns INDICATORS_alternativeMessaging ds)"
  "length (videoCalling (foldl checkDomain rc_initial ds)) = card (matchedPatterns INDICATORS_videoCalling ds)"
  "length (socialMessaging (foldl checkDomain rc_initial ds)) = card (matchedPatterns INDICATORS_socialMessaging ds)"
proof -
  have d: "distinct (datingApps rc_initial)" "distinct (anonymousPlatforms rc_initial)"
    "distinct (alternativeMessaging rc_initial)" "distinct (videoCalling rc_initial)"
    "distinct (socialMessaging rc_initial)"
    by (simp_all add: rc_initial_def)
  show "length (datingApps (foldl checkDomain rc_initial ds)) = card (matchedPatterns INDICATORS_datingApps ds)"
    using distinct_card [OF foldl_checkDomain_distinct(1) [OF d(1), of ds]]
    by (simp add: foldl_checkDomain_sets(1) rc_initial_def)
  show "length (anonymousPlatforms (foldl checkDomain rc_initial ds)) = card (matchedPatterns INDICATORS_anonymousPlatforms ds)"
    using distinct_card [OF foldl_checkDomain_distinct(2) [OF d(2), of ds]]
    by (simp add: foldl_checkDomain_sets(2) rc_initial_def)
  show "length (alternativeMessaging (foldl checkDomain rc_initial ds)) = card (matchedPatterns INDICATORS_alternativeMessaging ds)"
    using distinct_card [OF foldl_checkDomain_distinct(3) [OF d(3), of ds]]
    by (simp add: foldl_checkDomain_sets(3) rc_initial_def)
  show "length (videoCalling (foldl checkDomain rc_initial ds)) = card (matchedPatterns INDICATORS_videoCalling ds)"
    using distinct_card [OF foldl_checkDomain_distinct(4) [OF d(4), of ds]]
    by (simp add: foldl_checkDomain_sets(4) rc_initial_def)
  show "length (socialMessaging (foldl checkDomain rc_initial ds)) = card (matchedPatterns INDICATORS_socialMessaging ds)"
    using distinct_card [OF foldl_checkDomain_distinct(5) [OF d(5), of ds]]
    by (simp add: foldl_checkDomain_sets(5) rc_initial_def)
qed

lemma concernScore_formula:
  "concernScore (detectRelationshipConcerns ds) =
     10 * int (card (matchedPatterns INDICATORS_datingApps ds))
     + 8 * int (card (matchedPatterns INDICATORS_anonymousPlatforms ds))
     + 6 * int (card (matchedPatterns INDICATORS_alternativeMessaging ds))
     + 4 * int (card (matchedPatterns INDICATORS_videoCalling ds))
     + 2 * int (card (matchedPatterns INDICATORS_socialMessaging ds))"
  by (simp add: detectRelationshipConcerns_def Let_def length_matches)

lemma tables_distinct:
  "distinct INDICATORS_datingApps" "distinct INDICATORS_anonymousPlatforms"
  "distinct INDICATORS_alternativeMessaging" "distinct INDICATORS_videoCalling"
  "distinct INDICATORS_socialMessaging"
  by code_simp+

lemma card_matched_single:
  assumes "distinct ps" "\<not> isExcluded d"
  shows "card (matchedPatterns ps [d]) = matchCount ps d"
proof -
  have m: "matchedPatterns ps [d] = set (filter (\<lambda>p. string_includes d p) ps)"
    using assms(2) by (auto simp: matchedPatterns_def)
  have "card (set (filter (\<lambda>p. string_includes d p) ps)) = length (filter (\<lambda>p. string_includes d p) ps)"
    by (rule distinct_card) (simp add: assms(1))
  then show ?thesis unfolding m matchCount_def .
qed

lemma matched_none: "matchCount ps d = 0 \<Longrightarrow> matchedPatterns ps [d] = {}"
  by (auto simp: matchCount_def matchedPatterns_def filter_empty_conv)

lemma matchedPatterns_set3:
  "set ds = {d1, d2, d3} \<Longrightarrow>
     matchedPatterns ps ds = matchedPatterns ps [d1] \<union> matchedPatterns ps [d2] \<union> matchedPatterns ps [d3]"
  by (auto simp: matchedPatterns_def)

text \<open>
  C5: the concern score is 10 times the number of distinct dating matches plus 8 times the
  anonymous, 6 times the alternative-messaging, 4 times the video-calling and 2 times the
  social-messaging ones. A list of one domain that matches exactly one dating pattern and
  nothing else scores 10; a list made of a dating-only, an alternative-messaging-only and a
  video-calling-only domain scores 20.
\<close>

theorem concernScore_weighted_sum:
  "concernScore (detectRelationshipConcerns ds) =
     10 * int (card (matchedPatterns INDICATORS_datingApps ds))
     + 8 * int (card (matchedPatterns INDICATORS_anonymousPlatforms ds))
     + 6 * int (card (matchedPatterns INDICATORS_alternativeMessaging ds))
     + 4 * int (card (matchedPatterns INDICATORS_videoCalling ds))
     + 2 * int (card (matchedPatterns INDICATORS_socialMessaging ds))
   \<and> (\<not> isExcluded d \<and> categoryCounts d = (1, 0, 0, 0, 0)
        \<longrightarrow> concernScore (detectRelationshipConcerns [d]) = 10)
   \<and> (\<not> isExcluded d1 \<and> categoryCounts d1 = (1, 0, 0, 0, 0)
        \<and> \<not> isExcluded d2 \<and> categoryCounts d2 = (0, 0, 1, 0, 0)
        \<and> \<not> isExcluded d3 \<and> categoryCounts d3 = (0, 0, 0, 1, 0)
        \<and> set ds3 = {d1, d2, d3}
        \<longrightarrow> concernScore (detectRelationshipConcerns ds3) = 20)"
proof (intro conjI impI)
  show "concernScore (detectRelationshipConcerns ds) =
     10 * int (card (matchedPatterns INDICATORS_datingApps ds))
     + 8 * int (card (matchedPatterns INDICATORS_anonymousPlatforms ds))
     + 6 * int (card (matchedPatterns INDICATORS_alternativeMessaging ds))
     + 4 * int (card (matchedPatterns INDICATORS_videoCalling ds))
     + 2 * int (card (matchedPatterns INDICATORS_socialMessaging ds))"
    by (rule concernScore_formula)
next
  assume h: "\<not> isExcluded d \<and> categoryCounts d = (1, 0, 0, 0, 0)"
  then have c: "matchCount INDICATORS_datingApps d = 1"
    "matchCount INDICATORS_anonymousPlatforms d = 0"
    "matchCount INDICATORS_alternativeMessaging d = 0"
    "matchCount INDICATORS_videoCalling d = 0"
    "matchCount INDICATORS_socialMessaging d = 0"
    by (simp_all add: categoryCounts_def)
  from h have "card (matchedPatterns INDICATORS_datingApps [d]) = 1"
    by (simp add: card_matched_single tables_distinct c)
  then show "concernScore (detectRelationshipConcerns [d]) = 10"
    by (simp add: concernScore_formula matched_none c)
next
  assume h: "\<not> isExcluded d1 \<and> categoryCounts d1 = (1, 0, 0, 0, 0)
        \<and> \<not> isExcluded d2 \<and> categoryCounts d2 = (0, 0, 1, 0, 0)
        \<and> \<not> isExcluded d3 \<and> categoryCounts d3 = (0, 0, 0, 1, 0)
        \<and> set ds3 = {d1, d2, d3}"
  then have c1: "matchCount INDICATORS_datingApps d1 = 1"
    "matchCount INDICATORS_anonymousPlatforms d1 = 0"
    "matchCount INDICATORS_alternativeMessaging d1 = 0"
    "matchCount INDICATORS_videoCalling d1 = 0"
    "matchCount INDICATORS_socialMessaging d1 = 0"
    and c2: "matchCount INDICATORS_datingApps d2 = 0"
    "matchCount INDICATORS_anonymousPlatforms d2 = 0"
    "matchCount INDICATORS_alternativeMessaging d2 = 1"
    "matchCount INDICATORS_videoCalling d2 = 0"
    "matchCount INDICATORS_socialMessaging d2 = 0"
    and c3: "matchCount INDICATORS_datingApps d3 = 0"
    "matchCount INDICATORS_anonymousPlatforms d3 = 0"
    "matchCount INDICATORS_alternativeMessaging d3 = 0"
    "matchCount INDICATORS_videoCalling d3 = 1"
    "matchCount INDICATORS_socialMessaging d3 = 0"
    by (simp_all add: categoryCounts_def)
  from h have s: "set ds3 = {d1, d2, d3}" by simp
  from h have k: "card (matchedPatterns INDICATORS_datingApps [d1]) = 1"
    "card (matchedPatterns INDICATORS_alternativeMessaging [d2]) = 1"
    "card (matchedPatterns INDICATORS_videoCalling [d3]) = 1"
    by (simp_all add: card_matched_single tables_distinct c1 c2 c3)
  show "concernScore (detectRelationshipConcerns ds3) = 20"
    by (simp add: concernScore_formula matchedPatterns_set3 [OF s] matched_none c1 c2 c3 k)
qed

theorem concernScore_weighted_sum_witness:
  "\<not> isExcluded ''api.tinder.com'' \<and> categoryCounts ''api.tinder.com'' = (1, 0, 0, 0, 0)
   \<and> \<not> isExcluded ''web.telegram.org'' \<and> categoryCounts ''web.telegram.org'' = (0, 0, 1, 0, 0)
   \<and> \<not> isExcluded ''us04web.zoom.us'' \<and> categoryCounts ''us04web.zoom.us'' = (0, 0, 0, 1, 0)
   \<and> concernScore (detectRelationshipConcerns [''api.tinder.com'']) = 10
   \<and> concernScore (detectRelationshipConcerns
        [''api.tinder.com'', ''web.telegram.org'', ''us04web.zoom.us'']) = 20"
proof -
  have h1: "\<not> isExcluded ''api.tinder.com'' \<and> categoryCounts ''api.tinder.com'' = (1, 0, 0, 0, 0)"
    by code_simp
  have h2: "\<not> isExcluded ''web.telegram.org'' \<and> categoryCounts ''web.telegram.org'' = (0, 0, 1, 0, 0)"
    by code_simp
  have h3: "\<not> isExcluded ''us04web.zoom.us'' \<and> categoryCounts ''us04web.zoom.us'' = (0, 0, 0, 1, 0)"
    by code_simp
  have s: "set [''api.tinder.com'', ''web.telegram.org'', ''us04web.zoom.us'']
            = {''api.tinder.com'', ''web.telegram.org'', ''us04web.zoom.us''}"
    by simp
  from h1 h2 h3 s
    concernScore_weighted_sum [of "[]" "''api.tinder.com''" "''api.tinder.com''"
      "''web.telegram.org''" "''us04web.zoom.us''"
      "[''api.tinder.com'', ''web.telegram.org'', ''us04web.zoom.us'']"]
  show ?thesis by blast
qed

text \<open>
  C6: a domain that matches a pattern of the exclusion list is skipped, so the result
  (the five match lists and the score) is the same with the domain, at any position of
  the list, as without it.
\<close>

theorem excluded_domain_ignored:
  "isExcluded d \<Longrightarrow>
     detectRelationshipConcerns (xs @ d # ys) = detectRelationshipConcerns (xs @ ys)"
  by (simp add: detectRelationshipConcerns_def checkDomain_def)

theorem excluded_domain_ignored_witness:
  "isExcluded ''chat.google.com''
   \<and> detectRelationshipConcerns [''api.tinder.com'', ''chat.google.com'', ''us04web.zoom.us'']
     = detectRelationshipConcerns [''api.tinder.com'', ''us04web.zoom.us'']"
proof -
  have h: "isExcluded ''chat.google.com''" by code_simp
  from h excluded_domain_ignored [OF h, of "[''api.tinder.com'']" "[''us04web.zoom.us'']"]
  show ?thesis by simp
qed

section \<open>Properties of the masking detector\<close>

text \<open>
  C7: in a sorted sequence of a reels window, a window with strong WhatsApp evidence 3
  minutes later and a reels window 4 minutes after that, the middle window is flagged,
  and its evidence names the times of day of the two reels windows.
\<close>

theorem detectReelsMasking_sandwich:
  assumes sorted: "timeWindow s1 \<le> timeWindow s2" "timeWindow s2 \<le> timeWindow s3"
    and reels: "isReelsScrolling (facebookActivity s1)" "isReelsScrolling (facebookActivity s3)"
    and strong: "(isTextMessage (whatsappActivity s2) \<and> callDirection (whatsappActivity s2) = ''incoming'')
                 \<or> wa_isMediaTransfer (whatsappActivity s2)
                 \<or> wa_activityScore (whatsappActivity s2) > 6"
    and times: "windowTime (timeWindow s1) = Some t"
               "windowTime (timeWindow s2) = Some (t + 3 * 60000)"
               "windowTime (timeWindow s3) = Some (t + 7 * 60000)"
  shows "timeWindow (detectReelsMasking [s1, s2, s3] ! 1) = timeWindow s2
       \<and> isReelsMasking (detectReelsMasking [s1, s2, s3] ! 1)
       \<and> maskingEvidence (detectReelsMasking [s1, s2, s3] ! 1) =
           ''Suspicious: Reels stopped at '' @ timeOfDay (timeWindow s1)
           @ '', resumed at '' @ timeOfDay (timeWindow s3)"
proof -
  have "sorted (map timeWindow [s1, s2, s3])"
    using sorted by auto
  then have srt: "sort_key timeWindow [s1, s2, s3] = [s1, s2, s3]"
    by (rule sort_key_id_if_sorted)
  have idx: "[0..<length [s1, s2, s3]] = [0, 1, 2]"
    by (simp add: upt_rec)
  have ev: "hasStrongMessagingEvidence s2"
    using strong by (auto simp: hasStrongMessagingEvidence_def)
  have mid: "maskWindow [s1, s2, s3] (Suc 0) s2 =
      withMasking s2 True (''Suspicious: Reels stopped at '' @ timeOfDay (timeWindow s1)
           @ '', resumed at '' @ timeOfDay (timeWindow s3))"
    using ev reels times
    by (simp add: maskWindow_def Let_def idx withinTimeframe_def)
  have "detectReelsMasking [s1, s2, s3] ! 1 = maskWindow [s1, s2, s3] (Suc 0) s2"
    unfolding detectReelsMasking_def Let_def srt idx by simp
  then show ?thesis
    by (simp add: mid withMasking_def)
qed

theorem detectReelsMasking_sandwich_witness:
  "isReelsMasking (detectReelsMasking
      [reelsWindow ''2025-09-13 10:00'', voiceNoteWindow ''2025-09-13 10:03'',
       reelsWindow ''2025-09-13 10:07''] ! 1)
   \<and> maskingEvidence (detectReelsMasking
      [reelsWindow ''2025-09-13 10:00'', voiceNoteWindow ''2025-09-13 10:03'',
       reelsWindow ''2025-09-13 10:07''] ! 1)
     = ''Suspicious: Reels stopped at 10:00, resumed at 10:07''"
proof -
  have t: "timeOfDay (timeWindow (reelsWindow ''2025-09-13 10:00'')) = ''10:00''"
          "timeOfDay (timeWindow (reelsWindow ''2025-09-13 10:07'')) = ''10:07''"
    by code_simp+
  have "timeWindow (detectReelsMasking
      [reelsWindow ''2025-09-13 10:00'', voiceNoteWindow ''2025-09-13 10:03'',
       reelsWindow ''2025-09-13 10:07''] ! 1) = timeWindow (voiceNoteWindow ''2025-09-13 10:03'')
   \<and> isReelsMasking (detectReelsMasking
      [reelsWindow ''2025-09-13 10:00'', voiceNoteWindow ''2025-09-13 10:03'',
       reelsWindow ''2025-09-13 10:07''] ! 1)
   \<and> maskingEvidence (detectReelsMasking
      [reelsWindow ''2025-09-13 10:00'', voiceNoteWindow ''2025-09-13 10:03'',
       reelsWindow ''2025-09-13 10:07''] ! 1)
     = ''Suspicious: Reels stopped at '' @ timeOfDay (timeWindow (reelsWindow ''2025-09-13 10:00''))
       @ '', resumed at '' @ timeOfDay (timeWindow (reelsWindow ''2025-09-13 10:07''))"
  proof (rule detectReelsMasking_sandwich [where t = 1757757600000])
    show "timeWindow (reelsWindow ''2025-09-13 10:00'') \<le> timeWindow (voiceNoteWindow ''2025-09-13 10:03'')"
      by code_simp
    show "timeWindow (voiceNoteWindow ''2025-09-13 10:03'') \<le> timeWindow (reelsWindow ''2025-09-13 10:07'')"
      by code_simp
    show "isReelsScrolling (facebookActivity (reelsWindow ''2025-09-13 10:00''))"
      by (simp add: reelsWindow_def)
    show "isReelsScrolling (facebookActivity (reelsWindow ''2025-09-13 10:07''))"
      by (simp add: reelsWindow_def)
    show "(isTextMessage (whatsappActivity (voiceNoteWindow ''2025-09-13 10:03''))
           \<and> callDirection (whatsappActivity (voiceNoteWindow ''2025-09-13 10:03'')) = ''incoming'')
          \<or> wa_isMediaTransfer (whatsappActivity (voiceNoteWindow ''2025-09-13 10:03''))
          \<or> wa_activityScore (whatsappActivity (voiceNoteWindow ''2025-09-13 10:03'')) > 6"
      by (simp add: voiceNoteWindow_def)
    show "windowTime (timeWindow (reelsWindow ''2025-09-13 10:00'')) = Some 1757757600000"
      by code_simp
    show "windowTime (timeWindow (voiceNoteWindow ''2025-09-13 10:03'')) = Some (1757757600000 + 3 * 60000)"
      by code_simp
    show "windowTime (timeWindow (reelsWindow ''2025-09-13 10:07'')) = Some (1757757600000 + 7 * 60000)"
      by code_simp
  qed
  then show ?thesis by (simp add: t)
qed

end
